theory Spec2Isabelle
  imports Complex_Main "HOL-Library.Word"
begin

section \<open>The OpenGL sampler of \<^verbatim>\<open>modules/video_output/opengl/sampler.c\<close>\<close>

text \<open>
  The sampler keeps a handful of small matrices in C arrays of \<^verbatim>\<open>float\<close>, stored
  in column-major order, and a few flags that say which of them are defined and whether the
  composite matrix changed with the last picture. The model below follows the C functions one
  by one:
  \<^item> an array is a list, read with \<open>xs ! i\<close> and written with \<open>xs[i := v]\<close>; every
    index the code uses is a constant below the array's declared size;
  \<^item> \<^verbatim>\<open>float\<close> and \<^verbatim>\<open>double\<close> values are real numbers and their
    arithmetic is exact: infinities and NaN are not part of the model, and rounding is
    part of it only in \<open>init_conv_matrix_float\<close>, the second model of the product of
    the colour matrices. The concrete evaluations of the coordinate matrices only use
    small integers, on which binary floating point is exact as well;
  \<^item> \<^verbatim>\<open>unsigned\<close> fields are 32-bit words, \<^verbatim>\<open>GLsizei\<close> and
    \<^verbatim>\<open>int\<close> are integers;
  \<^item> the private structure is a record that each function takes and returns;
  \<^item> a failed \<^verbatim>\<open>assert\<close> and an error return are values of type \<open>error\<close>;
  \<^item> what the collaborators answer (the interop's callbacks, the chroma tables, the
    allocator) is an argument of the function that asks.
  The text of the generated shader, the OpenGL calls, the release of memory and the
  optional colour mapping stage (compiled in only with libplacebo) are outside the model.
  A division by zero, which C computes as an infinity or NaN, is \<open>0\<close> here; it arises
  only for a first texture of width or height zero, or a description of zero bits per
  sample, and no theorem below evaluates the model there.
\<close>

subsection \<open>Enumerations and descriptors\<close>

datatype video_orientation_t =
    ORIENT_NORMAL
  | ORIENT_TRANSPOSED
  | ORIENT_ANTI_TRANSPOSED
  | ORIENT_HFLIPPED
  | ORIENT_VFLIPPED
  | ORIENT_ROTATED_180
  | ORIENT_ROTATED_270
  | ORIENT_ROTATED_90

datatype video_color_space_t =
    COLOR_SPACE_UNDEF
  | COLOR_SPACE_BT601
  | COLOR_SPACE_BT709
  | COLOR_SPACE_BT2020

datatype video_color_range_t =
    COLOR_RANGE_UNDEF
  | COLOR_RANGE_FULL
  | COLOR_RANGE_LIMITED

text \<open>
  The chroma codes that the sampler compares against by name; every other code is
  \<open>VLC_CODEC_OTHER\<close> with its 32-bit value.
\<close>

datatype vlc_fourcc_t =
    VLC_CODEC_P010
  | VLC_CODEC_P016
  | VLC_CODEC_YV12
  | VLC_CODEC_YV9
  | VLC_CODEC_NV21
  | VLC_CODEC_XYZ12
  | VLC_CODEC_UYVY
  | VLC_CODEC_YUYV
  | VLC_CODEC_VYUY
  | VLC_CODEC_YVYU
  | VLC_CODEC_OTHER "32 word"

datatype GLenum_target =
    GL_TEXTURE_2D
  | GL_TEXTURE_RECTANGLE
  | GL_TEXTURE_EXTERNAL_OES

datatype error = VLC_EGENERIC | VLC_ENOMEM | AssertionFailure | NullPointer

text \<open>
  Two constants of the core headers of VLC, with the values they have there: the status
  of success and the largest number of planes of a picture.
\<close>

definition VLC_SUCCESS :: int where
  "VLC_SUCCESS = 0"

definition PICTURE_PLANE_MAX :: nat where
  "PICTURE_PLANE_MAX = 5"

record vlc_chroma_description_t =
  plane_count :: nat
  pixel_size :: nat
  pixel_bits :: nat

record video_format_t =
  i_chroma :: vlc_fourcc_t
  i_x_offset :: "32 word"
  i_y_offset :: "32 word"
  i_visible_width :: "32 word"
  i_visible_height :: "32 word"
  orientation :: video_orientation_t
  space :: video_color_space_t
  color_range :: video_color_range_t

text \<open>A \<^verbatim>\<open>vlc_rational_t\<close> pair per plane: the scale of the plane's width and height.\<close>

record vlc_gl_tex_cfg =
  w_num :: "32 word"
  w_den :: "32 word"
  h_num :: "32 word"
  h_den :: "32 word"

record vlc_gl_interop =
  fmt_out :: video_format_t
  interop_tex_target :: GLenum_target
  interop_tex_count :: nat
  texs :: "vlc_gl_tex_cfg list"
  supports_npot :: bool
  handle_texs_gen :: bool
  has_ops :: bool
  has_get_transform_matrix :: bool

record last_source_t =
  ls_x_offset :: "32 word"
  ls_y_offset :: "32 word"
  ls_visible_width :: "32 word"
  ls_visible_height :: "32 word"

record vlc_gl_sampler_priv =
  fmt :: video_format_t
  tex_count :: nat
  pic_to_tex_matrix :: bool
  yuv_color :: bool
  conv_matrix :: "real list"
  tex_widths :: "int list"
  tex_heights :: "int list"
  visible_widths :: "int list"
  visible_heights :: "int list"
  textures :: "32 word list"
  tex_target :: GLenum_target
  last_source :: last_source_t
  interop :: "vlc_gl_interop option"
  expose_planes :: bool
  plane :: nat
  mtx_orientation :: "real list"
  mtx_coords_map :: "real list"
  mtx_transform :: "real list"
  mtx_transform_defined :: bool
  mtx_all :: "real list"
  mtx_all_defined :: bool
  mtx_all_has_changed :: bool

text \<open>
  The field \<open>pic_to_tex_matrix\<close> of the public structure is a pointer that is either
  null or the address of \<open>mtx_all\<close>; the model keeps whether it is set.
\<close>

text \<open>
  Modelled from the spec: the constant \<^verbatim>\<open>MATRIX3x2_IDENTITY\<close>, which
  \<^verbatim>\<open>sampler.c\<close> takes from one of the headers it includes. Section 4.5 of the
  specification calls it the identity, which in column-major storage is the list below.
\<close>

definition MATRIX3x2_IDENTITY :: "real list" where
  "MATRIX3x2_IDENTITY = [1, 0, 0, 1, 0, 0]"

text \<open>
  \<^verbatim>\<open>calloc(1, sizeof(*priv))\<close>: every field is zero. The format is copied in by
  \<^verbatim>\<open>CreateSampler\<close>, so the record starts with the caller's format; and the
  target of the textures is assigned by \<^verbatim>\<open>opengl_fragment_shader_init\<close> before
  anything reads it, so the record may start with any target.
\<close>

definition calloc_priv :: "video_format_t \<Rightarrow> vlc_gl_sampler_priv" where
  "calloc_priv f =
     \<lparr> fmt = f,
       tex_count = 0,
       pic_to_tex_matrix = False,
       yuv_color = False,
       conv_matrix = replicate (4*4) 0,
       tex_widths = replicate PICTURE_PLANE_MAX 0,
       tex_heights = replicate PICTURE_PLANE_MAX 0,
       visible_widths = replicate PICTURE_PLANE_MAX 0,
       visible_heights = replicate PICTURE_PLANE_MAX 0,
       textures = replicate PICTURE_PLANE_MAX 0,
       tex_target = GL_TEXTURE_2D,
       last_source = \<lparr> ls_x_offset = 0, ls_y_offset = 0,
                       ls_visible_width = 0, ls_visible_height = 0 \<rparr>,
       interop = None,
       expose_planes = False,
       plane = 0,
       mtx_orientation = replicate (3*2) 0,
       mtx_coords_map = replicate (3*2) 0,
       mtx_transform = replicate (3*2) 0,
       mtx_transform_defined = False,
       mtx_all = replicate (3*2) 0,
       mtx_all_defined = False,
       mtx_all_has_changed = False \<rparr>"

subsection \<open>The colour conversion matrix\<close>

definition MATRIX_COLOR_RANGE_LIMITED :: "real list" where
  "MATRIX_COLOR_RANGE_LIMITED =
     [255/219,       0,       0, - 255/219 *  16/255,
            0, 255/224,       0, - 255/224 * 128/255,
            0,       0, 255/224, - 255/224 * 128/255]"

definition MATRIX_COLOR_RANGE_FULL :: "real list" where
  "MATRIX_COLOR_RANGE_FULL =
     [1, 0, 0,         0,
      0, 1, 0, - 128/255,
      0, 0, 1, - 128/255]"

text \<open>
  The macro \<^verbatim>\<open>MATRIX_YUV_TO_RGB_\<close> (three luma weights) is named
  \<open>MATRIX_YUV_TO_RGB_weights\<close> here: a name cannot end with an underscore.
\<close>

definition MATRIX_YUV_TO_RGB_weights :: "real \<Rightarrow> real \<Rightarrow> real \<Rightarrow> real list" where
  "MATRIX_YUV_TO_RGB_weights KR KG KB =
     [1,                     0,           2*(1 - KR),
      1, - 2*(1 - KB)*(KB/KG), - 2*(1 - KR)*(KR/KG),
      1,            2*(1 - KB),                    0]"

definition MATRIX_YUV_TO_RGB :: "real \<Rightarrow> real \<Rightarrow> real list" where
  "MATRIX_YUV_TO_RGB KR KB = MATRIX_YUV_TO_RGB_weights KR (1 - KR - KB) KB"

definition MATRIX_BT601 :: "real list" where
  "MATRIX_BT601 = MATRIX_YUV_TO_RGB (299/1000) (114/1000)"

definition MATRIX_BT709 :: "real list" where
  "MATRIX_BT709 = MATRIX_YUV_TO_RGB (2126/10000) (722/10000)"

definition MATRIX_BT2020 :: "real list" where
  "MATRIX_BT2020 = MATRIX_YUV_TO_RGB (2627/10000) (593/10000)"

text \<open>
  \<^verbatim>\<open>init_conv_matrix\<close>: the choice of the two tables, three nested loops, then
  the fourth row of the column-major 4x4 matrix. The innermost loop, which accumulates
  \<open>sum\<close> for the cell in column \<open>x\<close> and row \<open>y\<close>, is \<open>conv_cell\<close>.
\<close>

definition space_matrix_of :: "video_color_space_t \<Rightarrow> real list" where
  "space_matrix_of color_space =
     (case color_space of
        COLOR_SPACE_BT601 \<Rightarrow> MATRIX_BT601
      | COLOR_SPACE_BT2020 \<Rightarrow> MATRIX_BT2020
      | _ \<Rightarrow> MATRIX_BT709)"

definition range_matrix_of :: "video_color_range_t \<Rightarrow> real list" where
  "range_matrix_of clr_range =
     (if clr_range = COLOR_RANGE_FULL
      then MATRIX_COLOR_RANGE_FULL
      else MATRIX_COLOR_RANGE_LIMITED)"

definition conv_cell :: "real list \<Rightarrow> real list \<Rightarrow> nat \<Rightarrow> nat \<Rightarrow> real" where
  "conv_cell space_matrix range_matrix x y =
     fold (\<lambda>k sum. sum + space_matrix ! (y * 3 + k) * range_matrix ! (k * 4 + x)) [0..<3] 0"

definition init_conv_matrix ::
  "real list \<Rightarrow> video_color_space_t \<Rightarrow> video_color_range_t \<Rightarrow> real list" where
  "init_conv_matrix conv_matrix_out color_space clr_range =
     (let space_matrix = space_matrix_of color_space;
          range_matrix = range_matrix_of clr_range;
          m = fold (\<lambda>x m.
                fold (\<lambda>y m. m[x * 4 + y := conv_cell space_matrix range_matrix x y])
                  [0..<3] m)
                [0..<4] conv_matrix_out
      in m[3 := 0, 7 := 0, 11 := 0, 15 := 1])"

subsection \<open>The colour conversion matrix with the roundings of the machine\<close>

text \<open>
  The arithmetic of \<^verbatim>\<open>init_conv_matrix\<close> is not exact on the machine: the five
  tables are arrays of \<^verbatim>\<open>float\<close> that the compiler fills with rounded values, the
  product of two of their cells is rounded to a \<^verbatim>\<open>float\<close>, each addition to
  \<open>sum\<close> is rounded to a \<^verbatim>\<open>double\<close>, and the sum is rounded to a
  \<^verbatim>\<open>float\<close> when it is stored. These are the fields of a \<open>float_env\<close>, and
  \<open>init_conv_matrix_float\<close> is the function with each of them in its place.
\<close>

record float_env =
  to_float :: "real \<Rightarrow> real"
  mul_float :: "real \<Rightarrow> real"
  add_double :: "real \<Rightarrow> real"
  float_MATRIX_BT601 :: "real list"
  float_MATRIX_BT709 :: "real list"
  float_MATRIX_BT2020 :: "real list"
  float_MATRIX_COLOR_RANGE_LIMITED :: "real list"
  float_MATRIX_COLOR_RANGE_FULL :: "real list"

definition float_space_matrix_of :: "float_env \<Rightarrow> video_color_space_t \<Rightarrow> real list" where
  "float_space_matrix_of fe color_space =
     (case color_space of
        COLOR_SPACE_BT601 \<Rightarrow> float_MATRIX_BT601 fe
      | COLOR_SPACE_BT2020 \<Rightarrow> float_MATRIX_BT2020 fe
      | _ \<Rightarrow> float_MATRIX_BT709 fe)"

definition float_range_matrix_of :: "float_env \<Rightarrow> video_color_range_t \<Rightarrow> real list" where
  "float_range_matrix_of fe clr_range =
     (if clr_range = COLOR_RANGE_FULL
      then float_MATRIX_COLOR_RANGE_FULL fe
      else float_MATRIX_COLOR_RANGE_LIMITED fe)"

definition conv_cell_float :: "float_env \<Rightarrow> real list \<Rightarrow> real list \<Rightarrow> nat \<Rightarrow> nat \<Rightarrow> real" where
  "conv_cell_float fe space_matrix range_matrix x y =
     to_float fe
       (fold (\<lambda>k sum. add_double fe
                (sum + mul_float fe (space_matrix ! (y * 3 + k) * range_matrix ! (k * 4 + x))))
          [0..<3] 0)"

definition init_conv_matrix_float ::
  "float_env \<Rightarrow> real list \<Rightarrow> video_color_space_t \<Rightarrow> video_color_range_t \<Rightarrow> real list" where
  "init_conv_matrix_float fe conv_matrix_out color_space clr_range =
     (let space_matrix = float_space_matrix_of fe color_space;
          range_matrix = float_range_matrix_of fe clr_range;
          m = fold (\<lambda>x m.
                fold (\<lambda>y m. m[x * 4 + y := conv_cell_float fe space_matrix range_matrix x y])
                  [0..<3] m)
                [0..<4] conv_matrix_out
      in m[3 := 0, 7 := 0, 11 := 0, 15 := 1])"

text \<open>
  What is asked of the machine. A rounding is accurate to \<open>u\<close> if its relative error
  is at most \<open>u\<close>; rounding to the nearest \<^verbatim>\<open>float\<close> is accurate to \<open>2^-24\<close>
  and to the nearest \<^verbatim>\<open>double\<close> to \<open>2^-53\<close> (overflow and underflow apart, which
  the numbers of these tables are far from), and so is every evaluation with more
  precision. A table is accurate if each of its cells is within the relative error
  \<open>2^-23\<close> of the cell of the exact table: the compiler evaluates the constant
  expressions of the tables in \<^verbatim>\<open>double\<close> or better and rounds once to
  \<^verbatim>\<open>float\<close>.
\<close>

definition accurate :: "real \<Rightarrow> (real \<Rightarrow> real) \<Rightarrow> bool" where
  "accurate u rnd \<longleftrightarrow> (\<forall>x. \<bar>rnd x - x\<bar> \<le> u * \<bar>x\<bar>)"

definition table_accurate :: "real list \<Rightarrow> real list \<Rightarrow> bool" where
  "table_accurate t e \<longleftrightarrow>
     length t = length e \<and> (\<forall>i<length e. \<bar>t ! i - e ! i\<bar> \<le> (1 / 2 ^ 23) * \<bar>e ! i\<bar>)"

definition float_env_accurate :: "float_env \<Rightarrow> bool" where
  "float_env_accurate fe \<longleftrightarrow>
     accurate (1 / 2 ^ 24) (to_float fe)
   \<and> accurate (1 / 2 ^ 24) (mul_float fe)
   \<and> accurate (1 / 2 ^ 53) (add_double fe)
   \<and> table_accurate (float_MATRIX_BT601 fe) MATRIX_BT601
   \<and> table_accurate (float_MATRIX_BT709 fe) MATRIX_BT709
   \<and> table_accurate (float_MATRIX_BT2020 fe) MATRIX_BT2020
   \<and> table_accurate (float_MATRIX_COLOR_RANGE_LIMITED fe) MATRIX_COLOR_RANGE_LIMITED
   \<and> table_accurate (float_MATRIX_COLOR_RANGE_FULL fe) MATRIX_COLOR_RANGE_FULL"

text \<open>The machine that does not round: on it the function is the exact one.\<close>

definition exact_float_env :: float_env where
  "exact_float_env =
     \<lparr> to_float = (\<lambda>x. x),
       mul_float = (\<lambda>x. x),
       add_double = (\<lambda>x. x),
       float_MATRIX_BT601 = MATRIX_BT601,
       float_MATRIX_BT709 = MATRIX_BT709,
       float_MATRIX_BT2020 = MATRIX_BT2020,
       float_MATRIX_COLOR_RANGE_LIMITED = MATRIX_COLOR_RANGE_LIMITED,
       float_MATRIX_COLOR_RANGE_FULL = MATRIX_COLOR_RANGE_FULL \<rparr>"

subsection \<open>The steps after the product\<close>

text \<open>
  \<^verbatim>\<open>memcpy(dst + off, src, n * sizeof(float))\<close> on arrays: the \<open>n\<close> cells of
  \<open>dst\<close> from \<open>off\<close> on take the first \<open>n\<close> values of \<open>src\<close>.
\<close>

definition memcpy_at :: "'a list \<Rightarrow> nat \<Rightarrow> 'a list \<Rightarrow> nat \<Rightarrow> 'a list" where
  "memcpy_at dst off src n = fold (\<lambda>i d. d[off + i := src ! i]) [0..<n] dst"

text \<open>
  \<^verbatim>\<open>sampler_yuv_base_init\<close>. The shift \<^verbatim>\<open>1 << desc->pixel_bits\<close> is a power
  of two (the C shift is defined for fewer than 31 bits). The function has no failure
  path: the status it returns is always \<open>VLC_SUCCESS\<close>.
\<close>

definition yuv_range_correction :: "vlc_chroma_description_t \<Rightarrow> real" where
  "yuv_range_correction desc =
     real_of_int (2 ^ 16 - 1) / real_of_int (2 ^ pixel_bits desc - 1)"

definition swap_uv :: "vlc_fourcc_t \<Rightarrow> bool" where
  "swap_uv chroma \<longleftrightarrow>
     chroma = VLC_CODEC_YV12 \<or> chroma = VLC_CODEC_YV9 \<or> chroma = VLC_CODEC_NV21"

definition swap_columns_1_2 :: "real list \<Rightarrow> real list" where
  "swap_columns_1_2 matrix =
     (let tmp = memcpy_at (replicate 4 0) 0 (drop 4 matrix) 4;
          matrix = memcpy_at matrix 4 (drop 8 matrix) 4;
          matrix = memcpy_at matrix 8 tmp 4
      in matrix)"

text \<open>
  The block \<^verbatim>\<open>if (desc->pixel_size == 2) { ... }\<close>: the loop multiplies the first
  \<open>4*3\<close> cells of the array by the correction factor.
\<close>

definition apply_yuv_range_correction ::
  "real list \<Rightarrow> vlc_fourcc_t \<Rightarrow> vlc_chroma_description_t \<Rightarrow> real list" where
  "apply_yuv_range_correction matrix chroma desc =
     (if pixel_size desc = 2
      then (if chroma \<noteq> VLC_CODEC_P010 \<and> chroma \<noteq> VLC_CODEC_P016
            then fold (\<lambda>i m. m[i := m ! i * yuv_range_correction desc]) [0..<4*3] matrix
            else matrix)
      else matrix)"

definition sampler_yuv_base_init ::
  "vlc_gl_sampler_priv \<Rightarrow> vlc_fourcc_t \<Rightarrow> vlc_chroma_description_t \<Rightarrow> video_color_space_t
     \<Rightarrow> int \<times> vlc_gl_sampler_priv" where
  "sampler_yuv_base_init priv chroma desc yuv_space =
     (let rng = COLOR_RANGE_LIMITED;
          matrix = init_conv_matrix (conv_matrix priv) yuv_space rng;
          matrix = apply_yuv_range_correction matrix chroma desc;
          matrix = (if swap_uv chroma then swap_columns_1_2 matrix else matrix)
      in (VLC_SUCCESS, priv\<lparr> conv_matrix := matrix, yuv_color := True \<rparr>))"

subsection \<open>The orientation matrix\<close>

text \<open>The macro \<^verbatim>\<open>MATRIX_SET\<close>: six assignments into the column-major 2x3 array.\<close>

definition MATRIX_SET ::
  "real list \<Rightarrow> real \<Rightarrow> real \<Rightarrow> real \<Rightarrow> real \<Rightarrow> real \<Rightarrow> real \<Rightarrow> real list" where
  "MATRIX_SET matrix C0R0 C1R0 C3R0 C0R1 C1R1 C3R1 =
     matrix[0*2 + 0 := C0R0,
            1*2 + 0 := C1R0,
            2*2 + 0 := C3R0,
            0*2 + 1 := C0R1,
            1*2 + 1 := C1R1,
            2*2 + 1 := C3R1]"

definition InitOrientationMatrix :: "real list \<Rightarrow> video_orientation_t \<Rightarrow> real list" where
  "InitOrientationMatrix matrix orient =
     (case orient of
        ORIENT_ROTATED_90 \<Rightarrow> MATRIX_SET matrix 0 (-1) 1  1 0 0
      | ORIENT_ROTATED_180 \<Rightarrow> MATRIX_SET matrix (-1) 0 1  0 (-1) 1
      | ORIENT_ROTATED_270 \<Rightarrow> MATRIX_SET matrix 0 1 0  (-1) 0 1
      | ORIENT_HFLIPPED \<Rightarrow> MATRIX_SET matrix (-1) 0 1  0 1 0
      | ORIENT_VFLIPPED \<Rightarrow> MATRIX_SET matrix 1 0 0  0 (-1) 1
      | ORIENT_TRANSPOSED \<Rightarrow> MATRIX_SET matrix 0 (-1) 1  (-1) 0 1
      | ORIENT_ANTI_TRANSPOSED \<Rightarrow> MATRIX_SET matrix 0 1 0  1 0 0
      | _ \<Rightarrow> matrix)"

subsection \<open>Construction\<close>

text \<open>
  What the construction asks of its collaborators: the allocator, the chroma tables
  (\<^verbatim>\<open>vlc_fourcc_GetChromaDescription\<close>, \<^verbatim>\<open>vlc_fourcc_IsYUV\<close>), the
  extension string of the OpenGL API, the memory stream that collects the shader text,
  \<^verbatim>\<open>strdup\<close>, \<^verbatim>\<open>vlc_align_pot\<close> and the interop's texture generation.
\<close>

record sampler_env =
  calloc_ok :: bool
  GetChromaDescription :: "vlc_fourcc_t \<Rightarrow> vlc_chroma_description_t option"
  IsYUV :: "vlc_fourcc_t \<Rightarrow> bool"
  has_GL_ARB_texture_rg :: bool
  memstream_open_ok :: bool
  memstream_close_ok :: bool
  strdup_ok :: bool
  vlc_align_pot :: "32 word \<Rightarrow> 32 word"
  GenerateTextures :: "int list \<Rightarrow> int list \<Rightarrow> 32 word list \<Rightarrow> int \<times> 32 word list"

text \<open>
  \<^verbatim>\<open>opengl_init_swizzle\<close>. A null entry of \<^verbatim>\<open>swizzle_per_tex\<close> is \<open>None\<close>.
  The default case of the switch is \<^verbatim>\<open>assert(!"missing chroma")\<close>.
\<close>

definition opengl_init_swizzle ::
  "sampler_env \<Rightarrow> string option list \<Rightarrow> vlc_fourcc_t \<Rightarrow> vlc_chroma_description_t
     \<Rightarrow> error + string option list" where
  "opengl_init_swizzle env swizzle_per_tex chroma desc =
     (if plane_count desc = 3
      then Inr (swizzle_per_tex[0 := Some ''r'', 1 := Some ''r'', 2 := Some ''r''])
      else if plane_count desc = 2
      then (if has_GL_ARB_texture_rg env
            then Inr (swizzle_per_tex[0 := Some ''r'', 1 := Some ''rg''])
            else Inr (swizzle_per_tex[0 := Some ''x'', 1 := Some ''xa'']))
      else if plane_count desc = 1
      then (case chroma of
              VLC_CODEC_UYVY \<Rightarrow> Inr (swizzle_per_tex[0 := Some ''grb''])
            | VLC_CODEC_YUYV \<Rightarrow> Inr (swizzle_per_tex[0 := Some ''rga''])
            | VLC_CODEC_VYUY \<Rightarrow> Inr (swizzle_per_tex[0 := Some ''gbr''])
            | VLC_CODEC_YVYU \<Rightarrow> Inr (swizzle_per_tex[0 := Some ''rag''])
            | _ \<Rightarrow> Inl AssertionFailure)
      else Inr swizzle_per_tex)"

definition InitShaderExtensions ::
  "sampler_env \<Rightarrow> vlc_gl_sampler_priv \<Rightarrow> GLenum_target \<Rightarrow> error + vlc_gl_sampler_priv" where
  "InitShaderExtensions env priv tgt =
     (if tgt = GL_TEXTURE_EXTERNAL_OES
      then (if \<not> strdup_ok env then Inl VLC_EGENERIC else Inr priv)
      else Inr priv)"

definition sampler_planes_init ::
  "sampler_env \<Rightarrow> vlc_gl_sampler_priv \<Rightarrow> error + vlc_gl_sampler_priv" where
  "sampler_planes_init env priv =
     (if \<not> memstream_open_ok env then Inl VLC_EGENERIC
      else if \<not> memstream_close_ok env then Inl VLC_EGENERIC
      else (case InitShaderExtensions env priv (tex_target priv) of
              Inl e \<Rightarrow> Inl VLC_EGENERIC
            | Inr priv \<Rightarrow> Inr priv))"

definition xyz12_shader_init ::
  "sampler_env \<Rightarrow> vlc_gl_sampler_priv \<Rightarrow> error + vlc_gl_sampler_priv" where
  "xyz12_shader_init env priv = (if \<not> strdup_ok env then Inl VLC_ENOMEM else Inr priv)"

text \<open>
  The loop of \<^verbatim>\<open>opengl_fragment_shader_init\<close> over the textures of a YUV format:
  it adds up the lengths of the swizzles, asserting that each one is set and that the
  count stays below \<^verbatim>\<open>PICTURE_PLANE_MAX\<close>.
\<close>

fun count_colors :: "string option list \<Rightarrow> nat \<Rightarrow> error + nat" where
  "count_colors [] color_count = Inr color_count"
| "count_colors (None # rest) color_count = Inl AssertionFailure"
| "count_colors (Some swizzle # rest) color_count =
     (if color_count + length swizzle < PICTURE_PLANE_MAX
      then count_colors rest (color_count + length swizzle)
      else Inl AssertionFailure)"

text \<open>
  \<^verbatim>\<open>opengl_fragment_shader_init\<close> in three parts: the block for YUV formats, the
  part that writes the body of the shader and closes the stream, and the function itself.
\<close>

definition yuv_init ::
  "sampler_env \<Rightarrow> vlc_gl_sampler_priv \<Rightarrow> string option list \<Rightarrow> vlc_fourcc_t
     \<Rightarrow> vlc_chroma_description_t \<Rightarrow> video_color_space_t
     \<Rightarrow> error + (vlc_gl_sampler_priv \<times> string option list)" where
  "yuv_init env priv0 swizzle_per_tex chroma desc yuv_space =
     (let (ret, priv) = sampler_yuv_base_init priv0 chroma desc yuv_space
      in if ret \<noteq> VLC_SUCCESS then Inl VLC_EGENERIC
         else (case opengl_init_swizzle env swizzle_per_tex chroma desc of
                 Inl e \<Rightarrow> Inl e
               | Inr sw \<Rightarrow> Inr (priv, sw)))"

definition shader_body ::
  "sampler_env \<Rightarrow> vlc_gl_sampler_priv \<Rightarrow> GLenum_target \<Rightarrow> bool \<Rightarrow> video_color_space_t
     \<Rightarrow> string option list \<Rightarrow> error + vlc_gl_sampler_priv" where
  "shader_body env priv tgt is_yuv yuv_space sw =
     (if \<not> memstream_open_ok env then Inl VLC_EGENERIC
      else
        (case (if is_yuv then count_colors (take (tex_count priv) sw) 0 else Inr 1) of
           Inl e \<Rightarrow> Inl e
         | Inr color_count \<Rightarrow>
            (if \<not> (yuv_space = COLOR_SPACE_UNDEF \<or> color_count = 3)
             then Inl AssertionFailure
             else if \<not> memstream_close_ok env then Inl VLC_EGENERIC
             else (case InitShaderExtensions env priv tgt of
                     Inl e \<Rightarrow> Inl VLC_EGENERIC
                   | Inr priv \<Rightarrow> Inr priv))))"

definition opengl_fragment_shader_init ::
  "sampler_env \<Rightarrow> vlc_gl_sampler_priv \<Rightarrow> GLenum_target \<Rightarrow> video_format_t \<Rightarrow> bool
     \<Rightarrow> error + vlc_gl_sampler_priv" where
  "opengl_fragment_shader_init env priv0 tgt f expose =
     (let priv = priv0\<lparr> tex_target := tgt, expose_planes := expose, plane := 0 \<rparr>;
          chroma = i_chroma f;
          yuv_space = space f;
          orient = orientation f;
          swizzle_per_tex = replicate PICTURE_PLANE_MAX None;
          is_yuv = IsYUV env chroma
      in case GetChromaDescription env chroma of
           None \<Rightarrow> Inl VLC_EGENERIC
         | Some desc \<Rightarrow>
            (let priv = priv\<lparr> tex_count := plane_count desc \<rparr>;
                 priv = priv\<lparr> mtx_orientation :=
                                InitOrientationMatrix (mtx_orientation priv) orient \<rparr>
             in if expose then sampler_planes_init env priv
                else if chroma = VLC_CODEC_XYZ12 then xyz12_shader_init env priv
                else
                  (case (if is_yuv
                         then yuv_init env priv swizzle_per_tex chroma desc yuv_space
                         else Inr (priv, swizzle_per_tex)) of
                     Inl e \<Rightarrow> Inl e
                   | Inr (priv, sw) \<Rightarrow> shader_body env priv tgt is_yuv yuv_space sw)))"

text \<open>
  \<^verbatim>\<open>CreateSampler\<close>. The C function returns a null pointer on every failure; the
  model keeps the reason. The pointers to the OpenGL context and API are not part of the
  state. The sizes are computed in \<^verbatim>\<open>unsigned\<close> arithmetic and stored in
  \<^verbatim>\<open>GLsizei\<close> cells.
\<close>

definition texture_sizes ::
  "sampler_env \<Rightarrow> vlc_gl_interop \<Rightarrow> nat \<Rightarrow> vlc_gl_sampler_priv \<Rightarrow> vlc_gl_sampler_priv" where
  "texture_sizes env i j priv =
     (let w = sint (i_visible_width (fmt_out i) * w_num (texs i ! j) div w_den (texs i ! j));
          h = sint (i_visible_height (fmt_out i) * h_num (texs i ! j) div h_den (texs i ! j));
          priv = priv\<lparr> visible_widths := (visible_widths priv)[j := w],
                       visible_heights := (visible_heights priv)[j := h] \<rparr>
      in if supports_npot i
         then priv\<lparr> tex_widths := (tex_widths priv)[j := w],
                    tex_heights := (tex_heights priv)[j := h] \<rparr>
         else priv\<lparr> tex_widths := (tex_widths priv)[j := sint (vlc_align_pot env (word_of_int w))],
                    tex_heights := (tex_heights priv)[j := sint (vlc_align_pot env (word_of_int h))] \<rparr>)"

text \<open>
  The block \<^verbatim>\<open>if (interop) { ... }\<close> at the end of \<^verbatim>\<open>CreateSampler\<close>: the
  sizes of the textures, and the textures unless the interop generates them itself.
\<close>

definition init_textures ::
  "sampler_env \<Rightarrow> vlc_gl_interop option \<Rightarrow> vlc_gl_sampler_priv \<Rightarrow> error + vlc_gl_sampler_priv" where
  "init_textures env itp priv0 =
     (case itp of
        None \<Rightarrow> Inr priv0
      | Some i \<Rightarrow>
         (let priv = fold (texture_sizes env i) [0..<interop_tex_count i] priv0
          in if \<not> handle_texs_gen i
             then (let (ret, generated) =
                         GenerateTextures env (tex_widths priv) (tex_heights priv) (textures priv)
                   in if ret \<noteq> VLC_SUCCESS then Inl VLC_EGENERIC
                      else Inr (priv\<lparr> textures := generated \<rparr>))
             else Inr priv))"

definition CreateSampler ::
  "sampler_env \<Rightarrow> vlc_gl_interop option \<Rightarrow> video_format_t \<Rightarrow> GLenum_target \<Rightarrow> bool
     \<Rightarrow> error + vlc_gl_sampler_priv" where
  "CreateSampler env itp f tgt expose =
     (if \<not> calloc_ok env then Inl VLC_ENOMEM
      else
        (let priv = (calloc_priv f)\<lparr> interop := itp,
                                     mtx_transform_defined := False,
                                     pic_to_tex_matrix := False,
                                     mtx_all_defined := False,
                                     mtx_all_has_changed := False \<rparr>
         in case opengl_fragment_shader_init env priv tgt f expose of
              Inl e \<Rightarrow> Inl e
            | Inr priv \<Rightarrow>
               (if (case itp of None \<Rightarrow> False | Some i \<Rightarrow> interop_tex_count i \<noteq> tex_count priv)
                then Inl AssertionFailure
                else
                  (let priv = priv\<lparr> mtx_coords_map :=
                                       memcpy_at (mtx_coords_map priv) 0 MATRIX3x2_IDENTITY (3*2) \<rparr>
                   in init_textures env itp priv))))"

definition vlc_gl_sampler_NewFromInterop ::
  "sampler_env \<Rightarrow> vlc_gl_interop \<Rightarrow> bool \<Rightarrow> error + vlc_gl_sampler_priv" where
  "vlc_gl_sampler_NewFromInterop env i expose =
     CreateSampler env (Some i) (fmt_out i) (interop_tex_target i) expose"

definition vlc_gl_sampler_NewFromTexture2D ::
  "sampler_env \<Rightarrow> video_format_t \<Rightarrow> bool \<Rightarrow> error + vlc_gl_sampler_priv" where
  "vlc_gl_sampler_NewFromTexture2D env f expose =
     CreateSampler env None f GL_TEXTURE_2D expose"

subsection \<open>The matrices of a frame\<close>

text \<open>
  \<^verbatim>\<open>MatrixMultiply\<close>: the two loops over the column \<open>i\<close> and the row \<open>j\<close> of the
  output array, which the caller passes in.
\<close>

definition MatrixMultiply :: "real list \<Rightarrow> real list \<Rightarrow> real list \<Rightarrow> real list" where
  "MatrixMultiply out a b =
     fold (\<lambda>i out.
       fold (\<lambda>j out.
         out[i*2 + j := a ! (0*2 + j) * b ! (i*2 + 0)
                      + a ! (1*2 + j) * b ! (i*2 + 1)
                      + a ! (2*2 + j)])
         [0..<2] out)
       [0..<3] out"

text \<open>
  \<^verbatim>\<open>UpdateMatrixAll\<close>. The local array \<^verbatim>\<open>tmp\<close> is not initialised in C;
  \<^verbatim>\<open>MatrixMultiply\<close> writes each of its six cells before any is read.
\<close>

definition UpdateMatrixAll :: "vlc_gl_sampler_priv \<Rightarrow> vlc_gl_sampler_priv" where
  "UpdateMatrixAll priv =
     (if mtx_transform_defined priv
      then (let tmp = MatrixMultiply (replicate (3*2) 0) (mtx_coords_map priv) (mtx_orientation priv)
            in priv\<lparr> mtx_all := MatrixMultiply (mtx_all priv) (mtx_transform priv) tmp \<rparr>)
      else priv\<lparr> mtx_all :=
                   MatrixMultiply (mtx_all priv) (mtx_coords_map priv) (mtx_orientation priv) \<rparr>)"

text \<open>
  \<^verbatim>\<open>GetTransformMatrix\<close>: the callback is asked only if the interop has one; the
  second argument is what the callback answers for the current frame (\<open>None\<close> for a
  null pointer).
\<close>

definition GetTransformMatrix ::
  "vlc_gl_interop option \<Rightarrow> real list option \<Rightarrow> real list option" where
  "GetTransformMatrix itp answer =
     (case itp of
        None \<Rightarrow> None
      | Some i \<Rightarrow> if has_ops i \<and> has_get_transform_matrix i then answer else None)"

definition COL :: "nat \<Rightarrow> nat" where
  "COL x = x * 2"

definition ROW :: "nat \<Rightarrow> nat" where
  "ROW x = x"

definition source_changed :: "vlc_gl_sampler_priv \<Rightarrow> video_format_t \<Rightarrow> bool" where
  "source_changed priv source \<longleftrightarrow>
     i_x_offset source \<noteq> ls_x_offset (last_source priv)
   \<or> i_y_offset source \<noteq> ls_y_offset (last_source priv)
   \<or> i_visible_width source \<noteq> ls_visible_width (last_source priv)
   \<or> i_visible_height source \<noteq> ls_visible_height (last_source priv)"

text \<open>The condition of the first \<^verbatim>\<open>if\<close> of \<^verbatim>\<open>vlc_gl_sampler_UpdatePicture\<close>.\<close>

definition coords_map_outdated :: "vlc_gl_sampler_priv \<Rightarrow> video_format_t \<Rightarrow> bool" where
  "coords_map_outdated priv source \<longleftrightarrow> \<not> mtx_all_defined priv \<or> source_changed priv source"

text \<open>
  The body of the first \<^verbatim>\<open>if\<close> of \<^verbatim>\<open>vlc_gl_sampler_UpdatePicture\<close>: the
  coordinate map of the visible region, and the record of the region it was computed for.
\<close>

definition update_coords_map :: "vlc_gl_sampler_priv \<Rightarrow> video_format_t \<Rightarrow> vlc_gl_sampler_priv" where
  "update_coords_map priv source =
     (let matrix = replicate (3*2) 0;
          scale_w = real_of_int (tex_widths priv ! 0);
          scale_h = real_of_int (tex_heights priv ! 0);
          left = real (unat (i_x_offset source + 0)) / scale_w;
          top = real (unat (i_y_offset source + 0)) / scale_h;
          right = real (unat (i_x_offset source + i_visible_width source)) / scale_w;
          bottom = real (unat (i_y_offset source + i_visible_height source)) / scale_h;
          matrix = matrix[COL 0 + ROW 0 := right - left];
          matrix = matrix[COL 1 + ROW 1 := bottom - top];
          matrix = matrix[COL 2 + ROW 0 := left];
          matrix = matrix[COL 2 + ROW 1 := top]
      in priv\<lparr> mtx_coords_map := matrix,
               last_source := \<lparr> ls_x_offset = i_x_offset source,
                                ls_y_offset = i_y_offset source,
                                ls_visible_width = i_visible_width source,
                                ls_visible_height = i_visible_height source \<rparr> \<rparr>)"

text \<open>
  The second block of \<^verbatim>\<open>vlc_gl_sampler_UpdatePicture\<close>: the transform matrix of
  the frame is copied, or a transform matrix that is no longer there is dropped. The result
  is the sampler and the local flag \<^verbatim>\<open>mtx_changed\<close>.
\<close>

definition update_transform ::
  "vlc_gl_sampler_priv \<Rightarrow> real list option \<Rightarrow> bool \<Rightarrow> vlc_gl_sampler_priv \<times> bool" where
  "update_transform priv tm mtx_changed =
     (case tm of
        Some t \<Rightarrow>
          (priv\<lparr> mtx_transform := memcpy_at (mtx_transform priv) 0 t (3*2),
                 mtx_transform_defined := True \<rparr>, True)
      | None \<Rightarrow>
          (if mtx_transform_defined priv
           then (priv\<lparr> mtx_transform_defined := False \<rparr>, True)
           else (priv, mtx_changed)))"

text \<open>The last block: the composite matrix is computed again, or the flag is cleared.\<close>

definition update_mtx_all :: "vlc_gl_sampler_priv \<Rightarrow> bool \<Rightarrow> vlc_gl_sampler_priv" where
  "update_mtx_all priv mtx_changed =
     (if \<not> mtx_all_defined priv \<or> mtx_changed
      then (UpdateMatrixAll priv)\<lparr> mtx_all_defined := True,
                                    pic_to_tex_matrix := True,
                                    mtx_all_has_changed := True \<rparr>
      else priv\<lparr> mtx_all_has_changed := False \<rparr>)"

text \<open>
  \<^verbatim>\<open>vlc_gl_sampler_UpdatePicture\<close>. Its arguments beside the sampler: the format of
  the picture, the status that the interop's \<^verbatim>\<open>update_textures\<close> returns for it, and
  the answer of the transform callback. The result is the returned status and the sampler.
  The function asserts that the sampler has an interop, and it calls
  \<^verbatim>\<open>interop->ops->update_textures\<close> without a check of \<^verbatim>\<open>interop->ops\<close>.
\<close>

definition vlc_gl_sampler_UpdatePicture ::
  "vlc_gl_sampler_priv \<Rightarrow> video_format_t \<Rightarrow> int \<Rightarrow> real list option
     \<Rightarrow> error + (int \<times> vlc_gl_sampler_priv)" where
  "vlc_gl_sampler_UpdatePicture priv0 source update_textures_ret answer =
     (case interop priv0 of
        None \<Rightarrow> Inl AssertionFailure
      | Some i \<Rightarrow>
         if \<not> has_ops i then Inl NullPointer
         else
         (let mtx_changed = False;
              (priv, mtx_changed) =
                 (if coords_map_outdated priv0 source
                  then (update_coords_map priv0 source, True)
                  else (priv0, mtx_changed));
              ret = update_textures_ret;
              tm = GetTransformMatrix (Some i) answer;
              (priv, mtx_changed) = update_transform priv tm mtx_changed;
              priv = update_mtx_all priv mtx_changed
          in Inr (ret, priv)))"

text \<open>
  A run of \<^verbatim>\<open>vlc_gl_sampler_UpdatePicture\<close> over successive frames, each with its
  picture format, the status of the upload and the answer of the transform callback.
\<close>

fun UpdatePicture_seq ::
  "vlc_gl_sampler_priv \<Rightarrow> (video_format_t \<times> int \<times> real list option) list
     \<Rightarrow> error + vlc_gl_sampler_priv" where
  "UpdatePicture_seq priv [] = Inr priv"
| "UpdatePicture_seq priv ((source, ret, answer) # rest) =
     (case vlc_gl_sampler_UpdatePicture priv source ret answer of
        Inl e \<Rightarrow> Inl e
      | Inr (r, priv') \<Rightarrow> UpdatePicture_seq priv' rest)"

definition vlc_gl_sampler_UpdateTextures ::
  "vlc_gl_sampler_priv \<Rightarrow> 32 word list \<Rightarrow> int list \<Rightarrow> int list
     \<Rightarrow> error + (int \<times> vlc_gl_sampler_priv)" where
  "vlc_gl_sampler_UpdateTextures priv0 texs_in widths_in heights_in =
     (case interop priv0 of
        Some i \<Rightarrow> Inl AssertionFailure
      | None \<Rightarrow>
         (let priv =
                (if \<not> mtx_all_defined priv0
                 then priv0\<lparr> mtx_all := memcpy_at (mtx_all priv0) 0 MATRIX3x2_IDENTITY (3*2),
                             mtx_all_defined := True,
                             mtx_all_has_changed := True,
                             pic_to_tex_matrix := True \<rparr>
                 else priv0\<lparr> mtx_all_has_changed := False \<rparr>);
              n = tex_count priv;
              priv = priv\<lparr> textures := memcpy_at (textures priv) 0 texs_in n,
                           tex_widths := memcpy_at (tex_widths priv) 0 widths_in n,
                           tex_heights := memcpy_at (tex_heights priv) 0 heights_in n \<rparr>
          in Inr (VLC_SUCCESS, priv)))"

text \<open>A run of \<^verbatim>\<open>vlc_gl_sampler_UpdateTextures\<close> over successive frames.\<close>

fun UpdateTextures_seq ::
  "vlc_gl_sampler_priv \<Rightarrow> (32 word list \<times> int list \<times> int list) list
     \<Rightarrow> error + vlc_gl_sampler_priv" where
  "UpdateTextures_seq priv [] = Inr priv"
| "UpdateTextures_seq priv ((t, w, h) # rest) =
     (case vlc_gl_sampler_UpdateTextures priv t w h of
        Inl e \<Rightarrow> Inl e
      | Inr (ret, priv') \<Rightarrow> UpdateTextures_seq priv' rest)"

definition vlc_gl_sampler_SelectPlane :: "vlc_gl_sampler_priv \<Rightarrow> nat \<Rightarrow> vlc_gl_sampler_priv" where
  "vlc_gl_sampler_SelectPlane priv p = priv\<lparr> plane := p \<rparr>"

definition MTX :: "real list \<Rightarrow> nat \<Rightarrow> nat \<Rightarrow> real" where
  "MTX mtx col row = mtx ! ((col*2) + row)"

text \<open>
  \<^verbatim>\<open>vlc_gl_sampler_PicToTexCoords\<close>: the loop over \<open>coords_count\<close> points; the
  result is what the loop writes to \<^verbatim>\<open>tex_coords_out\<close>.
\<close>

fun PicToTexCoords_loop :: "real list \<Rightarrow> nat \<Rightarrow> real list \<Rightarrow> real list" where
  "PicToTexCoords_loop mtx 0 pic_coords = []"
| "PicToTexCoords_loop mtx (Suc n) pic_coords =
     (let x = pic_coords ! 0;
          y = pic_coords ! 1
      in (MTX mtx 0 0 * x + MTX mtx 1 0 * y + MTX mtx 2 0)
       # (MTX mtx 0 1 * x + MTX mtx 1 1 * y + MTX mtx 2 1)
       # PicToTexCoords_loop mtx n (drop 2 pic_coords))"

definition vlc_gl_sampler_PicToTexCoords ::
  "vlc_gl_sampler_priv \<Rightarrow> nat \<Rightarrow> real list \<Rightarrow> real list" where
  "vlc_gl_sampler_PicToTexCoords priv coords_count pic_coords =
     PicToTexCoords_loop (mtx_all priv) coords_count pic_coords"

definition vlc_gl_sampler_MustRecomputeCoords :: "vlc_gl_sampler_priv \<Rightarrow> bool" where
  "vlc_gl_sampler_MustRecomputeCoords priv = mtx_all_has_changed priv"

subsection \<open>The rules of the specification\<close>

text \<open>
  The product of two 2x3 matrices as the comment above \<^verbatim>\<open>MatrixMultiply\<close> and
  section 3 of the specification define it: both are expanded to 3x3 with the last row
  \<open>[0 0 1]\<close>, multiplied, and the first two rows of the product are kept. This
  definition follows the specification, not the code.
\<close>

definition expand_3x3 :: "real list \<Rightarrow> nat \<Rightarrow> nat \<Rightarrow> real" where
  "expand_3x3 m col row =
     (if row < 2 then m ! (col*2 + row) else if col = 2 then 1 else 0)"

definition affine_product :: "real list \<Rightarrow> real list \<Rightarrow> real list" where
  "affine_product a b =
     concat (map (\<lambda>col. map (\<lambda>row. \<Sum>k\<leftarrow>[0..<3]. expand_3x3 a k row * expand_3x3 b col k)
                           [0..<2])
                 [0..<3])"

text \<open>
  The table of section 4.3 of the specification: for each orientation the two rows of
  the matrix, each with the coefficients of X, of Y and the constant.
\<close>

fun orientation_table :: "video_orientation_t \<Rightarrow> real list \<times> real list" where
  "orientation_table ORIENT_NORMAL = ([1, 0, 0], [0, 1, 0])"
| "orientation_table ORIENT_ROTATED_90 = ([0, -1, 1], [1, 0, 0])"
| "orientation_table ORIENT_ROTATED_180 = ([-1, 0, 1], [0, -1, 1])"
| "orientation_table ORIENT_ROTATED_270 = ([0, 1, 0], [-1, 0, 1])"
| "orientation_table ORIENT_HFLIPPED = ([-1, 0, 1], [0, 1, 0])"
| "orientation_table ORIENT_VFLIPPED = ([1, 0, 0], [0, -1, 1])"
| "orientation_table ORIENT_TRANSPOSED = ([0, -1, 1], [-1, 0, 1])"
| "orientation_table ORIENT_ANTI_TRANSPOSED = ([0, 1, 0], [1, 0, 0])"

text \<open>The two rows of a 2x3 matrix stored in column-major order.\<close>

definition matrix_rows :: "real list \<Rightarrow> real list \<times> real list" where
  "matrix_rows m = ([m ! 0, m ! 2, m ! 4], [m ! 1, m ! 3, m ! 5])"

text \<open>
  The product of a 4x4 matrix in column-major storage with a vector of four components,
  as the generated shader computes \<^verbatim>\<open>ConvMatrix * pixel\<close>.
\<close>

definition mat4_mul_vec4 :: "real list \<Rightarrow> real list \<Rightarrow> real list" where
  "mat4_mul_vec4 m v = map (\<lambda>row. \<Sum>col\<leftarrow>[0..<4]. m ! (col*4 + row) * v ! col) [0..<4]"

text \<open>
  Scaling a 4x4 matrix in column-major storage: the first three rows, as section 4.2 of
  the specification words the bit-depth correction, and the first three columns. The cell
  \<open>i\<close> of the array is in column \<open>i div 4\<close> and row \<open>i mod 4\<close>.
\<close>

definition scale_rows_0_2 :: "real \<Rightarrow> real list \<Rightarrow> real list" where
  "scale_rows_0_2 r m = map (\<lambda>i. if i mod 4 < 3 then m ! i * r else m ! i) [0..<16]"

definition scale_columns_0_2 :: "real \<Rightarrow> real list \<Rightarrow> real list" where
  "scale_columns_0_2 r m = map (\<lambda>i. if i div 4 < 3 then m ! i * r else m ! i) [0..<16]"

text \<open>Exchanging the columns 1 and 2 of a 4x4 matrix: each cell keeps its row.\<close>

definition exchange_columns_1_2 :: "real list \<Rightarrow> real list" where
  "exchange_columns_1_2 m =
     map (\<lambda>i. m ! ((if i div 4 = 1 then 2 else if i div 4 = 2 then 1 else i div 4) * 4 + i mod 4))
       [0..<16]"

subsection \<open>Concrete inputs\<close>

text \<open>
  A collaborator set for packed RGB input: one plane, not YUV, every allocation succeeds,
  and the interop leaves the texture names as they are.
\<close>

definition rgb_env :: sampler_env where
  "rgb_env =
     \<lparr> calloc_ok = True,
       GetChromaDescription = (\<lambda>c. Some \<lparr> plane_count = 1, pixel_size = 4, pixel_bits = 32 \<rparr>),
       IsYUV = (\<lambda>c. False),
       has_GL_ARB_texture_rg = True,
       memstream_open_ok = True,
       memstream_close_ok = True,
       strdup_ok = True,
       vlc_align_pot = (\<lambda>x. x),
       GenerateTextures = (\<lambda>ws hs ts. (VLC_SUCCESS, ts)) \<rparr>"

definition rgb_fmt :: "32 word \<Rightarrow> 32 word \<Rightarrow> 32 word \<Rightarrow> 32 word \<Rightarrow> video_format_t" where
  "rgb_fmt x y w h =
     \<lparr> i_chroma = VLC_CODEC_OTHER 0,
       i_x_offset = x, i_y_offset = y,
       i_visible_width = w, i_visible_height = h,
       orientation = ORIENT_NORMAL,
       space = COLOR_SPACE_UNDEF,
       color_range = COLOR_RANGE_UNDEF \<rparr>"

text \<open>
  An interop for a 4x4 picture in one plane of full size, on an API with textures of any
  size, that generates its own textures; the second one also has a transform callback.
\<close>

definition rgb_interop :: vlc_gl_interop where
  "rgb_interop =
     \<lparr> fmt_out = rgb_fmt 0 0 4 4,
       interop_tex_target = GL_TEXTURE_2D,
       interop_tex_count = 1,
       texs = [\<lparr> w_num = 1, w_den = 1, h_num = 1, h_den = 1 \<rparr>],
       supports_npot = True,
       handle_texs_gen = True,
       has_ops = True,
       has_get_transform_matrix = False \<rparr>"

definition rgb_interop_tm :: vlc_gl_interop where
  "rgb_interop_tm = rgb_interop\<lparr> has_get_transform_matrix := True \<rparr>"

text \<open>
  The samplers that the construction returns for these inputs (lemmas \<open>rgb_sampler\<close>
  and \<open>rgb_texture_sampler\<close> below): the zeroed structure with the plane count, the
  identity as the coordinate map and, with an interop, the sizes of its one plane.
\<close>

definition rgb_frame_priv :: "vlc_gl_interop \<Rightarrow> vlc_gl_sampler_priv" where
  "rgb_frame_priv i =
     (calloc_priv (rgb_fmt 0 0 4 4))
       \<lparr> tex_count := 1,
         tex_widths := [4, 0, 0, 0, 0], tex_heights := [4, 0, 0, 0, 0],
         visible_widths := [4, 0, 0, 0, 0], visible_heights := [4, 0, 0, 0, 0],
         interop := Some i,
         mtx_coords_map := [1, 0, 0, 1, 0, 0] \<rparr>"

definition rgb_texture_priv :: vlc_gl_sampler_priv where
  "rgb_texture_priv =
     (calloc_priv (rgb_fmt 0 0 4 4))\<lparr> tex_count := 1, mtx_coords_map := [1, 0, 0, 1, 0, 0] \<rparr>"

text \<open>
  Collaborators and formats for planar YUV input: three planes of 8-bit samples, and the
  description of a planar format with 10-bit samples on two bytes.
\<close>

definition yuv8_desc :: vlc_chroma_description_t where
  "yuv8_desc = \<lparr> plane_count = 3, pixel_size = 1, pixel_bits = 8 \<rparr>"

definition yuv10_desc :: vlc_chroma_description_t where
  "yuv10_desc = \<lparr> plane_count = 3, pixel_size = 2, pixel_bits = 10 \<rparr>"

definition yuv_env :: sampler_env where
  "yuv_env =
     \<lparr> calloc_ok = True,
       GetChromaDescription = (\<lambda>c. Some yuv8_desc),
       IsYUV = (\<lambda>c. True),
       has_GL_ARB_texture_rg = True,
       memstream_open_ok = True,
       memstream_close_ok = True,
       strdup_ok = True,
       vlc_align_pot = (\<lambda>x. x),
       GenerateTextures = (\<lambda>ws hs ts. (VLC_SUCCESS, ts)) \<rparr>"

definition yuv_fmt :: "vlc_fourcc_t \<Rightarrow> video_color_space_t \<Rightarrow> video_color_range_t \<Rightarrow> video_format_t" where
  "yuv_fmt chroma sp rng =
     \<lparr> i_chroma = chroma,
       i_x_offset = 0, i_y_offset = 0,
       i_visible_width = 4, i_visible_height = 4,
       orientation = ORIENT_NORMAL,
       space = sp,
       color_range = rng \<rparr>"

text \<open>
  The conversion matrix for BT.601 with limited range in exact arithmetic (lemma
  \<open>bt601_limited\<close> below), and the same matrix with the columns 1 and 2 exchanged.
\<close>

definition bt601_limited_matrix :: "real list" where
  "bt601_limited_matrix =
     [85 / 73, 85 / 73, 85 / 73, 0,
      0, - (1287801 / 3287200), 22593 / 11200, 0,
      35751 / 22400, - (10689549 / 13148800), 0, 0,
      - (167519 / 191625), 59804057 / 112483875, - (208034 / 191625), 1]"

definition bt601_limited_matrix_vu :: "real list" where
  "bt601_limited_matrix_vu =
     [85 / 73, 85 / 73, 85 / 73, 0,
      35751 / 22400, - (10689549 / 13148800), 0, 0,
      0, - (1287801 / 3287200), 22593 / 11200, 0,
      - (167519 / 191625), 59804057 / 112483875, - (208034 / 191625), 1]"

text \<open>
  The texture-driven sampler that the construction returns for the planar format YV12
  with the BT.601 colour space, whatever the range tag of the format (lemma
  \<open>yv12_sampler\<close> below).
\<close>

definition yv12_texture_priv :: "video_color_range_t \<Rightarrow> vlc_gl_sampler_priv" where
  "yv12_texture_priv rng =
     (calloc_priv (yuv_fmt VLC_CODEC_YV12 COLOR_SPACE_BT601 rng))
       \<lparr> tex_count := 3, yuv_color := True, conv_matrix := bt601_limited_matrix_vu,
         mtx_coords_map := [1, 0, 0, 1, 0, 0] \<rparr>"

text \<open>
  A machine that is exact but for one cell of one table: the luma scale of the
  limited range is too large by the relative error \<open>2^-23\<close>.
\<close>

definition skewed_float_env :: float_env where
  "skewed_float_env =
     exact_float_env
       \<lparr> float_MATRIX_COLOR_RANGE_LIMITED :=
           MATRIX_COLOR_RANGE_LIMITED[0 := 255/219 * (1 + 1 / 2 ^ 23)] \<rparr>"

section \<open>Properties\<close>

subsection \<open>Evaluation of the loops and of the construction\<close>

lemma replicate_4: "replicate 4 x = [x, x, x, x]"
  and replicate_5: "replicate 5 x = [x, x, x, x, x]"
  and replicate_6: "replicate 6 x = [x, x, x, x, x, x]"
  and replicate_16: "replicate 16 x = [x, x, x, x, x, x, x, x, x, x, x, x, x, x, x, x]"
  by (simp_all add: numeral_eq_Suc)

lemma list_of_length_16:
  "length m = 16 \<Longrightarrow>
     \<exists>m0 m1 m2 m3 m4 m5 m6 m7 m8 m9 m10 m11 m12 m13 m14 m15.
       m = [m0, m1, m2, m3, m4, m5, m6, m7, m8, m9, m10, m11, m12, m13, m14, m15]"
  by (auto simp: numeral_eq_Suc length_Suc_conv)

lemma list_of_length_6:
  "length m = 6 \<Longrightarrow> \<exists>a b c d e f. m = [a, b, c, d, e, f]"
  by (auto simp: numeral_eq_Suc length_Suc_conv)

lemmas construction_defs =
  vlc_gl_sampler_NewFromInterop_def vlc_gl_sampler_NewFromTexture2D_def CreateSampler_def init_textures_def
  opengl_fragment_shader_init_def yuv_init_def shader_body_def calloc_priv_def
  InitShaderExtensions_def
  sampler_planes_init_def xyz12_shader_init_def
  InitOrientationMatrix_def PICTURE_PLANE_MAX_def texture_sizes_def VLC_SUCCESS_def
  MATRIX3x2_IDENTITY_def memcpy_at_def

lemmas update_defs =
  vlc_gl_sampler_UpdatePicture_def coords_map_outdated_def source_changed_def
  update_coords_map_def
  update_transform_def update_mtx_all_def GetTransformMatrix_def UpdateMatrixAll_def
  MatrixMultiply_def COL_def ROW_def vlc_gl_sampler_MustRecomputeCoords_def

lemmas example_defs =
  rgb_env_def rgb_fmt_def rgb_interop_def rgb_interop_tm_def rgb_frame_priv_def
  rgb_texture_priv_def

lemmas yuv_example_defs =
  yuv8_desc_def yuv10_desc_def yuv_env_def yuv_fmt_def bt601_limited_matrix_def
  bt601_limited_matrix_vu_def yv12_texture_priv_def

lemmas matrix_defs =
  space_matrix_of_def range_matrix_of_def conv_cell_def
  MATRIX_BT601_def MATRIX_BT709_def MATRIX_BT2020_def MATRIX_YUV_TO_RGB_def
  MATRIX_YUV_TO_RGB_weights_def MATRIX_COLOR_RANGE_LIMITED_def MATRIX_COLOR_RANGE_FULL_def

text \<open>The six cells that \<^verbatim>\<open>MatrixMultiply\<close> writes, and the six of the product.\<close>

lemma MatrixMultiply_cells:
  "MatrixMultiply [o0, o1, o2, o3, o4, o5] [a0, a1, a2, a3, a4, a5] [b0, b1, b2, b3, b4, b5] =
     [a0 * b0 + a2 * b1 + a4, a1 * b0 + a3 * b1 + a5,
      a0 * b2 + a2 * b3 + a4, a1 * b2 + a3 * b3 + a5,
      a0 * b4 + a2 * b5 + a4, a1 * b4 + a3 * b5 + a5]"
  by (simp add: MatrixMultiply_def upt_rec)

lemma affine_product_cells:
  "affine_product [a0, a1, a2, a3, a4, a5] [b0, b1, b2, b3, b4, b5] =
     [a0 * b0 + a2 * b1, a1 * b0 + a3 * b1,
      a0 * b2 + a2 * b3, a1 * b2 + a3 * b3,
      a0 * b4 + a2 * b5 + a4, a1 * b4 + a3 * b5 + a5]"
  by (simp add: affine_product_def expand_3x3_def upt_rec)

text \<open>
  The construction on the concrete inputs. The orientation matrix of the result is still
  the zero matrix of \<^verbatim>\<open>calloc\<close>.
\<close>

lemma rgb_sampler:
  "vlc_gl_sampler_NewFromInterop rgb_env rgb_interop False =
     Inr (rgb_frame_priv rgb_interop)"
  by (simp add: construction_defs example_defs replicate_5 replicate_6 replicate_16 upt_rec)

lemma rgb_sampler_tm:
  "vlc_gl_sampler_NewFromInterop rgb_env rgb_interop_tm False =
     Inr (rgb_frame_priv rgb_interop_tm)"
  by (simp add: construction_defs example_defs replicate_5 replicate_6 replicate_16 upt_rec)

lemma rgb_texture_sampler:
  "vlc_gl_sampler_NewFromTexture2D rgb_env (rgb_fmt 0 0 4 4) False = Inr rgb_texture_priv"
  by (simp add: construction_defs example_defs replicate_5 replicate_6 replicate_16 upt_rec)

subsection \<open>The orientation matrix and the corners of the picture\<close>

text \<open>
  What \<^verbatim>\<open>InitOrientationMatrix\<close> leaves in the zeroed array, for every
  orientation: the rows of the table of section 4.3 for the seven orientations that the
  switch names, and the untouched zero matrix for \<open>ORIENT_NORMAL\<close>, which falls into
  the empty default case.
\<close>

lemma InitOrientationMatrix_rows:
  "matrix_rows (InitOrientationMatrix (replicate (3*2) 0) orient) =
     (if orient = ORIENT_NORMAL then ([0, 0, 0], [0, 0, 0]) else orientation_table orient)"
  by (cases orient)
     (simp_all add: InitOrientationMatrix_def MATRIX_SET_def matrix_rows_def replicate_6)

text \<open>
  Claim C1 (frame-driven sampler, identity orientation, picture that fills the texture:
  the corners \<open>(0,0)\<close> and \<open>(1,1)\<close> map to \<open>(0,0)\<close> and \<open>(1,1)\<close>).
  The code does not do this. For the 4x4 interop with a 4x4 texture and a 4x4 picture at
  offset zero, \<^verbatim>\<open>vlc_gl_sampler_PicToTexCoords\<close> maps both corners to \<open>(0,0)\<close>:
  the orientation matrix is zero, so the composite matrix is zero as well.
\<close>

theorem identity_orientation_collapses_corners:
  "(case vlc_gl_sampler_NewFromInterop rgb_env rgb_interop False of
      Inl e \<Rightarrow> None
    | Inr s0 \<Rightarrow>
       (case vlc_gl_sampler_UpdatePicture s0 (rgb_fmt 0 0 4 4) VLC_SUCCESS None of
          Inl e \<Rightarrow> None
        | Inr (ret, s1) \<Rightarrow>
            Some (tex_widths s1 ! 0, tex_heights s1 ! 0,
                  vlc_gl_sampler_PicToTexCoords s1 2 [0, 0, 1, 1])))
   = Some (4, 4, [0, 0, 0, 0])"
  by (simp only: rgb_sampler)
     (simp add: calloc_priv_def update_defs example_defs vlc_gl_sampler_PicToTexCoords_def
        MTX_def replicate_5 replicate_6 replicate_16 upt_rec numeral_2_eq_2)

text \<open>
  Claim C2 (the orientation matrix built at construction equals the row of the table of
  section 4.3, and is \<open>[[1,0,0],[0,1,0]]\<close> for the identity orientation).
  The code does not build the identity row: a sampler constructed for a format of
  orientation \<open>ORIENT_NORMAL\<close> holds the zero matrix, where the table has the identity.
  The other seven rows agree with the table (\<open>InitOrientationMatrix_rows\<close>).
\<close>

theorem normal_orientation_matrix_is_zero:
  "(case vlc_gl_sampler_NewFromInterop rgb_env rgb_interop False of
      Inl e \<Rightarrow> None
    | Inr s \<Rightarrow> Some (orientation (fmt s), matrix_rows (mtx_orientation s)))
   = Some (ORIENT_NORMAL, ([0, 0, 0], [0, 0, 0]))
   \<and> orientation_table ORIENT_NORMAL = ([1, 0, 0], [0, 1, 0])"
  by (simp only: rgb_sampler)
     (simp add: calloc_priv_def example_defs matrix_rows_def replicate_6)

subsection \<open>The product of two matrices\<close>

text \<open>
  Claim C3 (\<^verbatim>\<open>MatrixMultiply\<close> computes the affine composition, the translation
  of \<open>a\<close> contributing to the translation column only).
  The code adds the translation of \<open>a\<close> to every column. With \<open>a\<close> the translation
  by \<open>(1,0)\<close> and \<open>b\<close> the identity, the product is \<open>a\<close>, and the code returns a
  matrix whose first two columns are shifted by the translation.
\<close>

theorem MatrixMultiply_adds_translation_to_every_column:
  "MatrixMultiply (replicate (3*2) 0) [1, 0, 0, 1, 1, 0] [1, 0, 0, 1, 0, 0] = [2, 0, 1, 1, 1, 0]
   \<and> affine_product [1, 0, 0, 1, 1, 0] [1, 0, 0, 1, 0, 0] = [1, 0, 0, 1, 1, 0]"
  by (simp add: replicate_6 MatrixMultiply_cells affine_product_cells)

subsection \<open>What the construction leaves untouched\<close>

lemma sampler_yuv_base_init_frame:
  "sampler_yuv_base_init p chroma desc sp = (ret, p') \<Longrightarrow>
     interop p' = interop p \<and> mtx_all p' = mtx_all p \<and> mtx_all_defined p' = mtx_all_defined p
     \<and> mtx_all_has_changed p' = mtx_all_has_changed p
     \<and> mtx_transform_defined p' = mtx_transform_defined p
     \<and> mtx_orientation p' = mtx_orientation p \<and> tex_count p' = tex_count p"
  by (auto simp: sampler_yuv_base_init_def Let_def)

lemma opengl_fragment_shader_init_frame:
  assumes "opengl_fragment_shader_init env p tgt f e = Inr p'"
  shows "interop p' = interop p \<and> mtx_all p' = mtx_all p
     \<and> mtx_all_defined p' = mtx_all_defined p
     \<and> mtx_all_has_changed p' = mtx_all_has_changed p
     \<and> mtx_transform_defined p' = mtx_transform_defined p"
  using assms
  by (auto simp: opengl_fragment_shader_init_def yuv_init_def shader_body_def Let_def
        sampler_planes_init_def xyz12_shader_init_def InitShaderExtensions_def
      split: option.splits if_splits sum.splits prod.splits
      dest!: sampler_yuv_base_init_frame)

lemma texture_sizes_frame:
  "interop (texture_sizes env i j p) = interop p \<and> mtx_all (texture_sizes env i j p) = mtx_all p
   \<and> mtx_all_defined (texture_sizes env i j p) = mtx_all_defined p
   \<and> mtx_all_has_changed (texture_sizes env i j p) = mtx_all_has_changed p
   \<and> mtx_transform_defined (texture_sizes env i j p) = mtx_transform_defined p"
  by (simp add: texture_sizes_def Let_def)

lemma fold_texture_sizes_frame:
  "interop (fold (texture_sizes env i) js p) = interop p
   \<and> mtx_all (fold (texture_sizes env i) js p) = mtx_all p
   \<and> mtx_all_defined (fold (texture_sizes env i) js p) = mtx_all_defined p
   \<and> mtx_all_has_changed (fold (texture_sizes env i) js p) = mtx_all_has_changed p
   \<and> mtx_transform_defined (fold (texture_sizes env i) js p) = mtx_transform_defined p"
  by (induction js arbitrary: p) (simp_all add: texture_sizes_frame)

text \<open>A sampler that has just been constructed has no composite matrix yet.\<close>

lemma CreateSampler_initial:
  assumes "CreateSampler env itp f tgt e = Inr s"
  shows "interop s = itp \<and> mtx_all s = replicate (3*2) 0 \<and> \<not> mtx_all_defined s
     \<and> \<not> mtx_all_has_changed s \<and> \<not> mtx_transform_defined s"
  using assms
  by (auto simp: CreateSampler_def init_textures_def Let_def calloc_priv_def
        fold_texture_sizes_frame
      split: if_splits sum.splits option.splits prod.splits
      dest!: opengl_fragment_shader_init_frame)

subsection \<open>Texture-driven samplers\<close>

lemma memcpy_identity:
  assumes "length m = 6"
  shows "memcpy_at m 0 MATRIX3x2_IDENTITY (3*2) = MATRIX3x2_IDENTITY"
proof -
  from list_of_length_6 [OF assms] obtain a b c d e f where "m = [a, b, c, d, e, f]"
    by blast
  then show ?thesis
    by (simp add: memcpy_at_def MATRIX3x2_IDENTITY_def upt_rec)
qed

text \<open>Once the composite matrix is the identity, every further update keeps it.\<close>

lemma UpdateTextures_seq_defined:
  assumes "interop s = None" "mtx_all_defined s" "mtx_all s = MATRIX3x2_IDENTITY"
  shows "\<exists>s'. UpdateTextures_seq s calls = Inr s' \<and> mtx_all s' = MATRIX3x2_IDENTITY
           \<and> interop s' = None \<and> mtx_all_defined s'
           \<and> (calls \<noteq> [] \<longrightarrow> \<not> vlc_gl_sampler_MustRecomputeCoords s')"
  using assms
proof (induction calls arbitrary: s)
  case Nil
  then show ?case by simp
next
  case (Cons c calls)
  obtain t w h where c: "c = (t, w, h)" by (cases c)
  obtain s1 where s1: "vlc_gl_sampler_UpdateTextures s t w h = Inr (VLC_SUCCESS, s1)"
    and inv: "interop s1 = None" "mtx_all_defined s1" "mtx_all s1 = MATRIX3x2_IDENTITY"
    and flag: "\<not> mtx_all_has_changed s1"
    using Cons.prems by (simp add: vlc_gl_sampler_UpdateTextures_def Let_def)
  from Cons.IH [OF inv] obtain s' where
    "UpdateTextures_seq s1 calls = Inr s'" "mtx_all s' = MATRIX3x2_IDENTITY"
    "interop s' = None" "mtx_all_defined s'"
    "calls \<noteq> [] \<longrightarrow> \<not> vlc_gl_sampler_MustRecomputeCoords s'"
    by blast
  with s1 flag c show ?case
    by (cases calls) (auto simp: vlc_gl_sampler_MustRecomputeCoords_def)
qed

text \<open>
  Claim C5 (texture-driven mode: the first \<^verbatim>\<open>vlc_gl_sampler_UpdateTextures\<close> sets
  the composite matrix to the identity and reports a change, every later one keeps the
  identity and reports none).
  For a sampler from \<^verbatim>\<open>vlc_gl_sampler_NewFromTexture2D\<close> and any non-empty run of
  updates, whatever the textures and sizes: every update succeeds, the composite matrix
  after the run is the identity, and \<^verbatim>\<open>vlc_gl_sampler_MustRecomputeCoords\<close> is
  true exactly if the run consists of the first update alone.
\<close>

theorem texture_driven_updates:
  assumes "vlc_gl_sampler_NewFromTexture2D env f expose = Inr s0" and "calls \<noteq> []"
  shows "\<exists>s. UpdateTextures_seq s0 calls = Inr s \<and> mtx_all s = MATRIX3x2_IDENTITY
           \<and> (vlc_gl_sampler_MustRecomputeCoords s \<longleftrightarrow> length calls = 1)"
proof -
  from assms(1) have init: "interop s0 = None" "mtx_all s0 = replicate (3*2) 0"
    "\<not> mtx_all_defined s0"
    using CreateSampler_initial [of env None f GL_TEXTURE_2D expose s0]
    by (simp_all add: vlc_gl_sampler_NewFromTexture2D_def)
  obtain t w h rest where calls: "calls = (t, w, h) # rest"
    using assms(2) by (cases calls) auto
  have len: "length (mtx_all s0) = 6" using init by simp
  obtain s1 where s1: "vlc_gl_sampler_UpdateTextures s0 t w h = Inr (VLC_SUCCESS, s1)"
    and inv: "interop s1 = None" "mtx_all_defined s1" "mtx_all s1 = MATRIX3x2_IDENTITY"
    and flag: "mtx_all_has_changed s1"
    using init memcpy_identity [OF len]
    by (simp add: vlc_gl_sampler_UpdateTextures_def Let_def)
  from UpdateTextures_seq_defined [OF inv, of rest] obtain s where
    "UpdateTextures_seq s1 rest = Inr s" "mtx_all s = MATRIX3x2_IDENTITY"
    "rest \<noteq> [] \<longrightarrow> \<not> vlc_gl_sampler_MustRecomputeCoords s"
    by blast
  with s1 flag calls show ?thesis
    by (cases rest) (auto simp: vlc_gl_sampler_MustRecomputeCoords_def)
qed

text \<open>
  The theorem at the texture-driven RGB sampler: after one update the flag is set, after
  two it is clear, and the matrix is the identity both times.
\<close>

theorem texture_driven_updates_witness:
  "vlc_gl_sampler_NewFromTexture2D rgb_env (rgb_fmt 0 0 4 4) False = Inr rgb_texture_priv
   \<and> (\<exists>s. UpdateTextures_seq rgb_texture_priv [([7], [4], [4])] = Inr s
          \<and> mtx_all s = [1, 0, 0, 1, 0, 0] \<and> vlc_gl_sampler_MustRecomputeCoords s)
   \<and> (\<exists>s. UpdateTextures_seq rgb_texture_priv [([7], [4], [4]), ([7], [4], [4])] = Inr s
          \<and> mtx_all s = [1, 0, 0, 1, 0, 0] \<and> \<not> vlc_gl_sampler_MustRecomputeCoords s)"
  using texture_driven_updates [OF rgb_texture_sampler, of "[([7], [4], [4])]"]
    texture_driven_updates [OF rgb_texture_sampler, of "[([7], [4], [4]), ([7], [4], [4])]"]
  by (simp add: rgb_texture_sampler MATRIX3x2_IDENTITY_def)

subsection \<open>Frame-driven samplers: one frame\<close>

text \<open>What each block of \<^verbatim>\<open>vlc_gl_sampler_UpdatePicture\<close> does to the fields.\<close>

lemma update_coords_map_fields:
  "interop (update_coords_map p src) = interop p"
  "mtx_all (update_coords_map p src) = mtx_all p"
  "mtx_all_defined (update_coords_map p src) = mtx_all_defined p"
  "mtx_transform (update_coords_map p src) = mtx_transform p"
  "mtx_transform_defined (update_coords_map p src) = mtx_transform_defined p"
  "mtx_orientation (update_coords_map p src) = mtx_orientation p"
  "tex_widths (update_coords_map p src) = tex_widths p"
  "tex_heights (update_coords_map p src) = tex_heights p"
  "\<not> source_changed (update_coords_map p src) src"
  by (simp_all add: update_coords_map_def Let_def source_changed_def)

lemma update_transform_fields:
  "interop (fst (update_transform p tm ch)) = interop p"
  "mtx_all (fst (update_transform p tm ch)) = mtx_all p"
  "mtx_all_defined (fst (update_transform p tm ch)) = mtx_all_defined p"
  "mtx_coords_map (fst (update_transform p tm ch)) = mtx_coords_map p"
  "last_source (fst (update_transform p tm ch)) = last_source p"
  "mtx_orientation (fst (update_transform p tm ch)) = mtx_orientation p"
  "tex_widths (fst (update_transform p tm ch)) = tex_widths p"
  "tex_heights (fst (update_transform p tm ch)) = tex_heights p"
  "mtx_transform_defined (fst (update_transform p tm ch)) \<longleftrightarrow> tm \<noteq> None"
  "snd (update_transform p tm ch) \<longleftrightarrow> tm \<noteq> None \<or> mtx_transform_defined p \<or> ch"
  "tm = None \<Longrightarrow> mtx_transform (fst (update_transform p tm ch)) = mtx_transform p"
  by (cases tm; simp add: update_transform_def)+

lemma UpdateMatrixAll_fields:
  "interop (UpdateMatrixAll p) = interop p"
  "mtx_all_defined (UpdateMatrixAll p) = mtx_all_defined p"
  "mtx_coords_map (UpdateMatrixAll p) = mtx_coords_map p"
  "last_source (UpdateMatrixAll p) = last_source p"
  "mtx_orientation (UpdateMatrixAll p) = mtx_orientation p"
  "mtx_transform (UpdateMatrixAll p) = mtx_transform p"
  "mtx_transform_defined (UpdateMatrixAll p) = mtx_transform_defined p"
  "tex_widths (UpdateMatrixAll p) = tex_widths p"
  "tex_heights (UpdateMatrixAll p) = tex_heights p"
  by (simp_all add: UpdateMatrixAll_def Let_def)

lemma update_mtx_all_fields:
  "interop (update_mtx_all p ch) = interop p"
  "mtx_all_defined (update_mtx_all p ch)"
  "mtx_coords_map (update_mtx_all p ch) = mtx_coords_map p"
  "last_source (update_mtx_all p ch) = last_source p"
  "mtx_orientation (update_mtx_all p ch) = mtx_orientation p"
  "mtx_transform (update_mtx_all p ch) = mtx_transform p"
  "mtx_transform_defined (update_mtx_all p ch) = mtx_transform_defined p"
  "tex_widths (update_mtx_all p ch) = tex_widths p"
  "tex_heights (update_mtx_all p ch) = tex_heights p"
  "mtx_all_has_changed (update_mtx_all p ch) \<longleftrightarrow> \<not> mtx_all_defined p \<or> ch"
  "mtx_all (update_mtx_all p ch) =
     (if \<not> mtx_all_defined p \<or> ch then mtx_all (UpdateMatrixAll p) else mtx_all p)"
  by (simp_all add: update_mtx_all_def UpdateMatrixAll_fields)

text \<open>The sampler after one frame, as the composition of the three blocks.\<close>

lemma UpdatePicture_blocks:
  assumes "interop s = Some i" and "has_ops i"
  shows "vlc_gl_sampler_UpdatePicture s src ret answer =
     Inr (ret,
       update_mtx_all
         (fst (update_transform
                (if \<not> mtx_all_defined s \<or> source_changed s src
                 then update_coords_map s src else s)
                (GetTransformMatrix (Some i) answer)
                (\<not> mtx_all_defined s \<or> source_changed s src)))
         (snd (update_transform
                (if \<not> mtx_all_defined s \<or> source_changed s src
                 then update_coords_map s src else s)
                (GetTransformMatrix (Some i) answer)
                (\<not> mtx_all_defined s \<or> source_changed s src))))"
  using assms
  by (simp add: vlc_gl_sampler_UpdatePicture_def coords_map_outdated_def Let_def split_beta)

text \<open>
  The sampler after one frame: the status of the upload does not enter it, the composite
  matrix is defined, the region of the picture is the recorded one, and the flag is set
  exactly if the composite was undefined, the region differs from the recorded one, the
  interop answers with a transform matrix, or a transform matrix was there before.
\<close>

lemmas block_fields =
  update_coords_map_fields update_transform_fields UpdateMatrixAll_fields update_mtx_all_fields

lemma UpdatePicture_step:
  assumes "interop s = Some i" and "has_ops i"
  shows "\<exists>s'.
    (\<forall>ret. vlc_gl_sampler_UpdatePicture s src ret answer = Inr (ret, s'))
    \<and> interop s' = Some i
    \<and> mtx_all_defined s'
    \<and> \<not> source_changed s' src
    \<and> (mtx_transform_defined s' \<longleftrightarrow> GetTransformMatrix (Some i) answer \<noteq> None)
    \<and> (vlc_gl_sampler_MustRecomputeCoords s' \<longleftrightarrow>
       \<not> mtx_all_defined s \<or> source_changed s src
       \<or> GetTransformMatrix (Some i) answer \<noteq> None \<or> mtx_transform_defined s)
    \<and> mtx_all s' = (if vlc_gl_sampler_MustRecomputeCoords s'
                   then mtx_all (UpdateMatrixAll (s'\<lparr> mtx_all := mtx_all s \<rparr>))
                   else mtx_all s)"
proof -
  define c where "c \<longleftrightarrow> \<not> mtx_all_defined s \<or> source_changed s src"
  define p1 where "p1 = (if c then update_coords_map s src else s)"
  define tm where "tm = GetTransformMatrix (Some i) answer"
  define p2 where "p2 = fst (update_transform p1 tm c)"
  define ch where "ch = snd (update_transform p1 tm c)"
  define s' where "s' = update_mtx_all p2 ch"
  have run: "vlc_gl_sampler_UpdatePicture s src ret answer = Inr (ret, s')" for ret
    using UpdatePicture_blocks [OF assms, of src ret answer]
    by (simp add: s'_def p2_def ch_def p1_def c_def tm_def)
  have p1: "interop p1 = Some i" "mtx_all_defined p1 = mtx_all_defined s"
    "mtx_transform_defined p1 = mtx_transform_defined s" "mtx_all p1 = mtx_all s"
    "\<not> c \<Longrightarrow> \<not> source_changed p1 src" "c \<Longrightarrow> \<not> source_changed p1 src"
    using assms(1) by (simp_all add: p1_def c_def block_fields)
  have p2: "interop p2 = Some i" "mtx_all_defined p2 = mtx_all_defined s"
    "mtx_all p2 = mtx_all s" "last_source p2 = last_source p1"
    "mtx_transform_defined p2 \<longleftrightarrow> tm \<noteq> None"
    using p1 by (simp_all add: p2_def block_fields)
  have ch: "ch \<longleftrightarrow> tm \<noteq> None \<or> mtx_transform_defined s \<or> c"
    using p1 by (simp add: ch_def block_fields)
  have src: "\<not> source_changed s' src"
    using p1(5,6) p2(4) by (cases c) (simp_all add: s'_def block_fields source_changed_def)
  have flag: "vlc_gl_sampler_MustRecomputeCoords s' \<longleftrightarrow>
       \<not> mtx_all_defined s \<or> source_changed s src \<or> tm \<noteq> None \<or> mtx_transform_defined s"
    using p2 ch by (auto simp: vlc_gl_sampler_MustRecomputeCoords_def s'_def block_fields c_def)
  have e: "mtx_all (UpdateMatrixAll (s'\<lparr> mtx_all := mtx_all s \<rparr>)) = mtx_all (UpdateMatrixAll p2)"
    using p2(3) by (simp add: UpdateMatrixAll_def Let_def s'_def block_fields)
  have all: "mtx_all s' = (if vlc_gl_sampler_MustRecomputeCoords s'
                   then mtx_all (UpdateMatrixAll (s'\<lparr> mtx_all := mtx_all s \<rparr>))
                   else mtx_all s)"
    unfolding e using p2(2,3)
    by (simp add: s'_def block_fields vlc_gl_sampler_MustRecomputeCoords_def)
  have i': "interop s' = Some i" using p2(1) by (simp add: s'_def block_fields)
  have d': "mtx_all_defined s'" by (simp add: s'_def block_fields)
  have t': "mtx_transform_defined s' \<longleftrightarrow> GetTransformMatrix (Some i) answer \<noteq> None"
    using p2(5) by (simp add: s'_def block_fields tm_def)
  have f': "vlc_gl_sampler_MustRecomputeCoords s' \<longleftrightarrow>
       \<not> mtx_all_defined s \<or> source_changed s src
       \<or> GetTransformMatrix (Some i) answer \<noteq> None \<or> mtx_transform_defined s"
    using flag by (simp only: tm_def)
  show ?thesis
    by (intro exI [of _ s'] conjI allI run i' d' src t' f' all)
qed

text \<open>What the blocks write: the coordinate map, the recorded region, the transform matrix
  and the composite matrix.\<close>

lemma update_coords_map_values:
  "mtx_coords_map (update_coords_map p src) =
     (let w = real_of_int (tex_widths p ! 0);
          h = real_of_int (tex_heights p ! 0);
          left = real (unat (i_x_offset src)) / w;
          top = real (unat (i_y_offset src)) / h;
          right = real (unat (i_x_offset src + i_visible_width src)) / w;
          bottom = real (unat (i_y_offset src + i_visible_height src)) / h
      in [right - left, 0, 0, bottom - top, left, top])"
  "last_source (update_coords_map p src) =
     \<lparr> ls_x_offset = i_x_offset src, ls_y_offset = i_y_offset src,
       ls_visible_width = i_visible_width src, ls_visible_height = i_visible_height src \<rparr>"
  by (simp_all add: update_coords_map_def Let_def COL_def ROW_def replicate_6)

lemma update_transform_value:
  "mtx_transform (fst (update_transform p tm ch)) =
     (case tm of Some t \<Rightarrow> memcpy_at (mtx_transform p) 0 t (3*2) | None \<Rightarrow> mtx_transform p)"
  by (cases tm) (simp_all add: update_transform_def)

lemma UpdateMatrixAll_value:
  "mtx_all (UpdateMatrixAll p) =
     (if mtx_transform_defined p
      then MatrixMultiply (mtx_all p) (mtx_transform p)
             (MatrixMultiply (replicate (3*2) 0) (mtx_coords_map p) (mtx_orientation p))
      else MatrixMultiply (mtx_all p) (mtx_coords_map p) (mtx_orientation p))"
  by (simp add: UpdateMatrixAll_def Let_def)

lemma last_source_unchanged:
  "\<not> source_changed p src \<Longrightarrow>
   last_source p =
     \<lparr> ls_x_offset = i_x_offset src, ls_y_offset = i_y_offset src,
       ls_visible_width = i_visible_width src, ls_visible_height = i_visible_height src \<rparr>"
  by (cases "last_source p") (simp add: source_changed_def)

text \<open>
  Claim C10 (a failing \<^verbatim>\<open>update_textures\<close> is returned to the caller unchanged,
  and the matrices are updated as on success).
  For a sampler with an interop that has its operations: one sampler \<open>s'\<close> is the
  result of \<^verbatim>\<open>vlc_gl_sampler_UpdatePicture\<close> for every status \<open>ret\<close> of the
  upload, a failure as well as \<open>VLC_SUCCESS\<close>, and each status comes back as it is.
  In \<open>s'\<close>
  \<^item> the recorded region is the region of the picture;
  \<^item> the coordinate map is the matrix of the region in the first texture if the
    composite matrix was undefined or the region differs from the recorded one, and the
    old map otherwise;
  \<^item> the transform matrix is the copy of the answer of the interop, if it gave one, and
    it is marked as present exactly then;
  \<^item> the flag is set exactly if the composite matrix was undefined, the region differs
    from the recorded one, the interop answered with a transform matrix, or a transform
    matrix was present before;
  \<^item> the composite matrix is defined, and if the flag is set it is the result of
    \<^verbatim>\<open>MatrixMultiply\<close> on the new coordinate map and the orientation matrix,
    and then on the new transform matrix if one is present; otherwise it is the old one.
\<close>

theorem UpdatePicture_status_and_state:
  assumes "interop s = Some i" and "has_ops i"
  shows "\<exists>s'.
      (\<forall>ret. vlc_gl_sampler_UpdatePicture s src ret answer = Inr (ret, s'))
    \<and> last_source s' =
        \<lparr> ls_x_offset = i_x_offset src, ls_y_offset = i_y_offset src,
          ls_visible_width = i_visible_width src, ls_visible_height = i_visible_height src \<rparr>
    \<and> mtx_coords_map s' =
        (if \<not> mtx_all_defined s \<or> source_changed s src
         then (let w = real_of_int (tex_widths s ! 0);
                   h = real_of_int (tex_heights s ! 0);
                   left = real (unat (i_x_offset src)) / w;
                   top = real (unat (i_y_offset src)) / h;
                   right = real (unat (i_x_offset src + i_visible_width src)) / w;
                   bottom = real (unat (i_y_offset src + i_visible_height src)) / h
               in [right - left, 0, 0, bottom - top, left, top])
         else mtx_coords_map s)
    \<and> mtx_transform s' =
        (case GetTransformMatrix (Some i) answer of
           Some t \<Rightarrow> memcpy_at (mtx_transform s) 0 t (3*2)
         | None \<Rightarrow> mtx_transform s)
    \<and> (mtx_transform_defined s' \<longleftrightarrow> GetTransformMatrix (Some i) answer \<noteq> None)
    \<and> mtx_orientation s' = mtx_orientation s
    \<and> mtx_all_defined s'
    \<and> (mtx_all_has_changed s' \<longleftrightarrow>
         \<not> mtx_all_defined s \<or> source_changed s src
         \<or> GetTransformMatrix (Some i) answer \<noteq> None \<or> mtx_transform_defined s)
    \<and> mtx_all s' =
        (if mtx_all_has_changed s'
         then (if mtx_transform_defined s'
               then MatrixMultiply (mtx_all s) (mtx_transform s')
                      (MatrixMultiply (replicate (3*2) 0) (mtx_coords_map s') (mtx_orientation s'))
               else MatrixMultiply (mtx_all s) (mtx_coords_map s') (mtx_orientation s'))
         else mtx_all s)"
proof -
  define c where "c \<longleftrightarrow> \<not> mtx_all_defined s \<or> source_changed s src"
  define p1 where "p1 = (if c then update_coords_map s src else s)"
  define tm where "tm = GetTransformMatrix (Some i) answer"
  define p2 where "p2 = fst (update_transform p1 tm c)"
  define ch where "ch = snd (update_transform p1 tm c)"
  define s' where "s' = update_mtx_all p2 ch"
  have run: "vlc_gl_sampler_UpdatePicture s src ret answer = Inr (ret, s')" for ret
    using UpdatePicture_blocks [OF assms, of src ret answer]
    by (simp add: s'_def p2_def ch_def p1_def c_def tm_def)
  have p1: "mtx_all_defined p1 = mtx_all_defined s"
    "mtx_transform_defined p1 = mtx_transform_defined s" "mtx_all p1 = mtx_all s"
    "mtx_transform p1 = mtx_transform s" "mtx_orientation p1 = mtx_orientation s"
    by (simp_all add: p1_def block_fields)
  have p1_src: "last_source p1 =
        \<lparr> ls_x_offset = i_x_offset src, ls_y_offset = i_y_offset src,
          ls_visible_width = i_visible_width src, ls_visible_height = i_visible_height src \<rparr>"
    by (cases c) (simp_all add: p1_def update_coords_map_values(2) last_source_unchanged c_def)
  have p1_map: "mtx_coords_map p1 =
        (if \<not> mtx_all_defined s \<or> source_changed s src
         then (let w = real_of_int (tex_widths s ! 0);
                   h = real_of_int (tex_heights s ! 0);
                   left = real (unat (i_x_offset src)) / w;
                   top = real (unat (i_y_offset src)) / h;
                   right = real (unat (i_x_offset src + i_visible_width src)) / w;
                   bottom = real (unat (i_y_offset src + i_visible_height src)) / h
               in [right - left, 0, 0, bottom - top, left, top])
         else mtx_coords_map s)"
    by (cases c) (simp_all only: p1_def update_coords_map_values(1) c_def if_True if_False)
  have p2: "mtx_all_defined p2 = mtx_all_defined s" "mtx_all p2 = mtx_all s"
    "last_source p2 = last_source p1" "mtx_coords_map p2 = mtx_coords_map p1"
    "mtx_orientation p2 = mtx_orientation s"
    "mtx_transform_defined p2 \<longleftrightarrow> tm \<noteq> None"
    using p1 by (simp_all add: p2_def block_fields)
  have p2_tr: "mtx_transform p2 = (case tm of Some t \<Rightarrow> memcpy_at (mtx_transform s) 0 t (3*2)
                         | None \<Rightarrow> mtx_transform s)"
    unfolding p2_def update_transform_value p1(4) ..
  have ch: "ch \<longleftrightarrow> tm \<noteq> None \<or> mtx_transform_defined s \<or> c"
    using p1 by (simp add: ch_def block_fields)
  have src': "last_source s' =
        \<lparr> ls_x_offset = i_x_offset src, ls_y_offset = i_y_offset src,
          ls_visible_width = i_visible_width src, ls_visible_height = i_visible_height src \<rparr>"
    using p1_src p2(3) by (simp add: s'_def block_fields)
  have map': "mtx_coords_map s' = mtx_coords_map p1"
    using p2(4) by (simp add: s'_def block_fields)
  have tr': "mtx_transform s' = mtx_transform p2" by (simp add: s'_def block_fields)
  have td': "mtx_transform_defined s' \<longleftrightarrow> tm \<noteq> None"
    using p2(6) by (simp add: s'_def block_fields)
  have or': "mtx_orientation s' = mtx_orientation s"
    using p2(5) by (simp add: s'_def block_fields)
  have d': "mtx_all_defined s'" by (simp add: s'_def block_fields)
  have flag: "mtx_all_has_changed s' \<longleftrightarrow>
       \<not> mtx_all_defined s \<or> source_changed s src \<or> tm \<noteq> None \<or> mtx_transform_defined s"
    using p2(1) ch by (auto simp: s'_def block_fields c_def)
  have "mtx_all s' = (if mtx_all_has_changed s' then mtx_all (UpdateMatrixAll p2) else mtx_all s)"
    using p2(1,2) by (simp add: s'_def block_fields)
  also have "mtx_all (UpdateMatrixAll p2) =
      (if mtx_transform_defined s'
       then MatrixMultiply (mtx_all s) (mtx_transform s')
              (MatrixMultiply (replicate (3*2) 0) (mtx_coords_map s') (mtx_orientation s'))
       else MatrixMultiply (mtx_all s) (mtx_coords_map s') (mtx_orientation s'))"
    unfolding UpdateMatrixAll_value map' tr' td' or' p2(2,4,5,6) ..
  finally have all': "mtx_all s' =
        (if mtx_all_has_changed s'
         then (if mtx_transform_defined s'
               then MatrixMultiply (mtx_all s) (mtx_transform s')
                      (MatrixMultiply (replicate (3*2) 0) (mtx_coords_map s') (mtx_orientation s'))
               else MatrixMultiply (mtx_all s) (mtx_coords_map s') (mtx_orientation s'))
         else mtx_all s)" .
  show ?thesis
    by (intro exI [of _ s'] conjI allI run src' d' or' all')
       (simp_all only: map' p1_map tr' p2_tr td' flag tm_def)
qed

text \<open>
  The theorem at the frame-driven RGB sampler with a transform callback, for a 2x2 region at
  offset (1, 1) of the 4x4 texture: before the frame the composite matrix is not defined
  and the coordinate map is the identity; with the failure status \<open>-1\<close> and with
  \<open>VLC_SUCCESS\<close> the same sampler results, with the new region, coordinate map,
  transform matrix, composite matrix and flag.
\<close>

theorem UpdatePicture_status_and_state_witness:
  "interop (rgb_frame_priv rgb_interop_tm) = Some rgb_interop_tm
   \<and> has_ops rgb_interop_tm
   \<and> \<not> mtx_all_defined (rgb_frame_priv rgb_interop_tm)
   \<and> mtx_coords_map (rgb_frame_priv rgb_interop_tm) = [1, 0, 0, 1, 0, 0]
   \<and> (\<exists>s'. vlc_gl_sampler_UpdatePicture (rgb_frame_priv rgb_interop_tm) (rgb_fmt 1 1 2 2) (- 1)
               (Some [0, 1, 1, 0, 1, 0]) = Inr (- 1, s')
          \<and> vlc_gl_sampler_UpdatePicture (rgb_frame_priv rgb_interop_tm) (rgb_fmt 1 1 2 2)
               VLC_SUCCESS (Some [0, 1, 1, 0, 1, 0]) = Inr (VLC_SUCCESS, s')
          \<and> last_source s' = \<lparr> ls_x_offset = 1, ls_y_offset = 1,
                                ls_visible_width = 2, ls_visible_height = 2 \<rparr>
          \<and> mtx_coords_map s' = [1/2, 0, 0, 1/2, 1/4, 1/4]
          \<and> mtx_transform s' = [0, 1, 1, 0, 1, 0]
          \<and> mtx_transform_defined s'
          \<and> mtx_all_defined s'
          \<and> mtx_all_has_changed s'
          \<and> mtx_all s' = [5/4, 1/4, 5/4, 1/4, 5/4, 1/4])"
proof -
  let ?S = "rgb_frame_priv rgb_interop_tm"
  let ?T = "[0, 1, 1, 0, 1, 0] :: real list"
  have i: "interop ?S = Some rgb_interop_tm"
    by (simp add: rgb_frame_priv_def)
  have o: "has_ops rgb_interop_tm"
    by (simp add: rgb_interop_tm_def rgb_interop_def)
  have d: "\<not> mtx_all_defined ?S"
    by (simp add: rgb_frame_priv_def calloc_priv_def)
  have m: "mtx_coords_map ?S = [1, 0, 0, 1, 0, 0]"
    by (simp add: rgb_frame_priv_def)
  have tm: "GetTransformMatrix (Some rgb_interop_tm) (Some ?T) = Some ?T"
    by (simp add: GetTransformMatrix_def rgb_interop_tm_def rgb_interop_def)
  have fields: "mtx_transform ?S = [0, 0, 0, 0, 0, 0]" "mtx_all ?S = [0, 0, 0, 0, 0, 0]"
    "mtx_orientation ?S = [0, 0, 0, 0, 0, 0]" "tex_widths ?S ! 0 = 4" "tex_heights ?S ! 0 = 4"
    by (simp_all add: rgb_frame_priv_def calloc_priv_def replicate_6)
  from UpdatePicture_status_and_state [OF i o, of "rgb_fmt 1 1 2 2" "Some ?T"] obtain s' where
    run: "\<forall>ret. vlc_gl_sampler_UpdatePicture ?S (rgb_fmt 1 1 2 2) ret (Some ?T) = Inr (ret, s')"
    and src: "last_source s' =
        \<lparr> ls_x_offset = i_x_offset (rgb_fmt 1 1 2 2), ls_y_offset = i_y_offset (rgb_fmt 1 1 2 2),
          ls_visible_width = i_visible_width (rgb_fmt 1 1 2 2),
          ls_visible_height = i_visible_height (rgb_fmt 1 1 2 2) \<rparr>"
    and map: "mtx_coords_map s' =
        (if \<not> mtx_all_defined ?S \<or> source_changed ?S (rgb_fmt 1 1 2 2)
         then (let w = real_of_int (tex_widths ?S ! 0);
                   h = real_of_int (tex_heights ?S ! 0);
                   left = real (unat (i_x_offset (rgb_fmt 1 1 2 2))) / w;
                   top = real (unat (i_y_offset (rgb_fmt 1 1 2 2))) / h;
                   right = real (unat (i_x_offset (rgb_fmt 1 1 2 2)
                                       + i_visible_width (rgb_fmt 1 1 2 2))) / w;
                   bottom = real (unat (i_y_offset (rgb_fmt 1 1 2 2)
                                        + i_visible_height (rgb_fmt 1 1 2 2))) / h
               in [right - left, 0, 0, bottom - top, left, top])
         else mtx_coords_map ?S)"
    and tr: "mtx_transform s' =
        (case GetTransformMatrix (Some rgb_interop_tm) (Some ?T) of
           Some t \<Rightarrow> memcpy_at (mtx_transform ?S) 0 t (3*2)
         | None \<Rightarrow> mtx_transform ?S)"
    and td: "mtx_transform_defined s' \<longleftrightarrow>
               GetTransformMatrix (Some rgb_interop_tm) (Some ?T) \<noteq> None"
    and ori: "mtx_orientation s' = mtx_orientation ?S"
    and ad: "mtx_all_defined s'"
    and flag: "mtx_all_has_changed s' \<longleftrightarrow>
         \<not> mtx_all_defined ?S \<or> source_changed ?S (rgb_fmt 1 1 2 2)
         \<or> GetTransformMatrix (Some rgb_interop_tm) (Some ?T) \<noteq> None
         \<or> mtx_transform_defined ?S"
    and all: "mtx_all s' =
        (if mtx_all_has_changed s'
         then (if mtx_transform_defined s'
               then MatrixMultiply (mtx_all ?S) (mtx_transform s')
                      (MatrixMultiply (replicate (3*2) 0) (mtx_coords_map s') (mtx_orientation s'))
               else MatrixMultiply (mtx_all ?S) (mtx_coords_map s') (mtx_orientation s'))
         else mtx_all ?S)"
    by (elim exE conjE)
  have r1: "vlc_gl_sampler_UpdatePicture ?S (rgb_fmt 1 1 2 2) (- 1) (Some ?T) = Inr (- 1, s')"
    using run by (rule spec)
  have r2: "vlc_gl_sampler_UpdatePicture ?S (rgb_fmt 1 1 2 2) VLC_SUCCESS (Some ?T)
      = Inr (VLC_SUCCESS, s')"
    using run by (rule spec)
  have src': "last_source s' = \<lparr> ls_x_offset = 1, ls_y_offset = 1,
                                ls_visible_width = 2, ls_visible_height = 2 \<rparr>"
    using src by (simp add: rgb_fmt_def)
  have map': "mtx_coords_map s' = [1/2, 0, 0, 1/2, 1/4, 1/4]"
    using map d by (simp add: fields rgb_fmt_def)
  have tr': "mtx_transform s' = [0, 1, 1, 0, 1, 0]"
    using tr by (simp add: tm fields memcpy_at_def upt_rec)
  have td': "mtx_transform_defined s'"
    using td by (simp add: tm)
  have flag': "mtx_all_has_changed s'"
    using flag d by simp
  have all': "mtx_all s' = [5/4, 1/4, 5/4, 1/4, 5/4, 1/4]"
    using all by (simp add: flag' td' tr' map' ori fields replicate_6 MatrixMultiply_cells)
  show ?thesis
    by (intro conjI exI [of _ s'] i o d m r1 r2 src' map' tr' td' ad flag' all')
qed

subsection \<open>Frame-driven samplers: successive frames\<close>

lemma GetTransformMatrix_None: "GetTransformMatrix itp None = None"
  by (simp add: GetTransformMatrix_def split: option.splits)

text \<open>A frame without a transform matrix.\<close>

lemma UpdatePicture_plain_step:
  assumes "interop s = Some i" and "has_ops i"
  obtains s' where
    "vlc_gl_sampler_UpdatePicture s src ret None = Inr (ret, s')"
    "interop s' = Some i" "mtx_all_defined s'" "\<not> source_changed s' src"
    "\<not> mtx_transform_defined s'"
    "vlc_gl_sampler_MustRecomputeCoords s' \<longleftrightarrow>
       \<not> mtx_all_defined s \<or> source_changed s src \<or> mtx_transform_defined s"
proof -
  from UpdatePicture_step [OF assms, of src None] obtain s' where
    *: "\<forall>ret. vlc_gl_sampler_UpdatePicture s src ret None = Inr (ret, s')"
       "interop s' = Some i" "mtx_all_defined s'" "\<not> source_changed s' src"
       "mtx_transform_defined s' \<longleftrightarrow> GetTransformMatrix (Some i) None \<noteq> None"
       "vlc_gl_sampler_MustRecomputeCoords s' \<longleftrightarrow>
          \<not> mtx_all_defined s \<or> source_changed s src
          \<or> GetTransformMatrix (Some i) None \<noteq> None \<or> mtx_transform_defined s"
    by (elim exE conjE)
  show thesis
  proof (rule that [of s'])
    show "vlc_gl_sampler_UpdatePicture s src ret None = Inr (ret, s')" using *(1) by (rule spec)
    show "interop s' = Some i" "mtx_all_defined s'" "\<not> source_changed s' src" by (rule *)+
    show "\<not> mtx_transform_defined s'" using *(5) by (simp only: GetTransformMatrix_None) simp
    show "vlc_gl_sampler_MustRecomputeCoords s' \<longleftrightarrow>
       \<not> mtx_all_defined s \<or> source_changed s src \<or> mtx_transform_defined s"
      using *(6) by (simp only: GetTransformMatrix_None) simp
  qed
qed

text \<open>
  Claim C4, as the code has it. The claim says that the composite matrix is computed again
  and the flag set only if the coordinate map or the transform matrix changed; the code
  also does both whenever the interop answers with a transform matrix, without comparing
  it with the previous one. Amended:
  after \<^verbatim>\<open>vlc_gl_sampler_UpdatePicture\<close> the flag is set, and the composite matrix
  is the one \<^verbatim>\<open>UpdateMatrixAll\<close> computes from the matrices of the new state,
  exactly if the composite was undefined, or the region of the picture differs from the
  recorded one, or the interop answers with a transform matrix, or a transform matrix was
  present before the frame; otherwise the flag is clear and the composite matrix is the
  old one. Two frames with the same region and no transform matrix leave the flag clear
  after the second; a frame with another horizontal offset sets it, and the frame after
  that, with the same region again, clears it.
\<close>

theorem composite_change_detection:
  assumes "interop s = Some i" and "has_ops i"
  shows "(\<exists>s'. vlc_gl_sampler_UpdatePicture s src ret answer = Inr (ret, s')
            \<and> (vlc_gl_sampler_MustRecomputeCoords s' \<longleftrightarrow>
                  \<not> mtx_all_defined s \<or> source_changed s src
                  \<or> GetTransformMatrix (Some i) answer \<noteq> None \<or> mtx_transform_defined s)
            \<and> mtx_all s' = (if vlc_gl_sampler_MustRecomputeCoords s'
                             then mtx_all (UpdateMatrixAll (s'\<lparr> mtx_all := mtx_all s \<rparr>))
                             else mtx_all s))
       \<and> (\<exists>s2. UpdatePicture_seq s [(src, r1, None), (src, r2, None)] = Inr s2
                \<and> \<not> vlc_gl_sampler_MustRecomputeCoords s2)
       \<and> (i_x_offset src' \<noteq> i_x_offset src \<longrightarrow>
             (\<exists>s2. UpdatePicture_seq s [(src, r1, None), (src', r2, None)] = Inr s2
                   \<and> vlc_gl_sampler_MustRecomputeCoords s2)
           \<and> (\<exists>s3. UpdatePicture_seq s [(src, r1, None), (src', r2, None), (src', r3, None)] = Inr s3
                   \<and> \<not> vlc_gl_sampler_MustRecomputeCoords s3))"
proof (intro conjI impI)
  show "\<exists>s'. vlc_gl_sampler_UpdatePicture s src ret answer = Inr (ret, s')
            \<and> (vlc_gl_sampler_MustRecomputeCoords s' \<longleftrightarrow>
                  \<not> mtx_all_defined s \<or> source_changed s src
                  \<or> GetTransformMatrix (Some i) answer \<noteq> None \<or> mtx_transform_defined s)
            \<and> mtx_all s' = (if vlc_gl_sampler_MustRecomputeCoords s'
                             then mtx_all (UpdateMatrixAll (s'\<lparr> mtx_all := mtx_all s \<rparr>))
                             else mtx_all s)"
    using UpdatePicture_step [OF assms, of src answer]
    by (elim exE conjE allE [of _ ret]) (intro exI conjI; assumption)
next
  obtain s1 where s1: "vlc_gl_sampler_UpdatePicture s src r1 None = Inr (r1, s1)"
    "interop s1 = Some i" "mtx_all_defined s1" "\<not> source_changed s1 src"
    "\<not> mtx_transform_defined s1"
    by (rule UpdatePicture_plain_step [OF assms, of src r1])
  obtain s2 where s2: "vlc_gl_sampler_UpdatePicture s1 src r2 None = Inr (r2, s2)"
    "vlc_gl_sampler_MustRecomputeCoords s2 \<longleftrightarrow>
       \<not> mtx_all_defined s1 \<or> source_changed s1 src \<or> mtx_transform_defined s1"
    by (rule UpdatePicture_plain_step [OF s1(2) assms(2), of src r2])
  show "\<exists>s2. UpdatePicture_seq s [(src, r1, None), (src, r2, None)] = Inr s2
                \<and> \<not> vlc_gl_sampler_MustRecomputeCoords s2"
    using s1 s2 by simp
next
  assume diff: "i_x_offset src' \<noteq> i_x_offset src"
  obtain s1 where s1: "vlc_gl_sampler_UpdatePicture s src r1 None = Inr (r1, s1)"
    "interop s1 = Some i" "mtx_all_defined s1" "\<not> source_changed s1 src"
    "\<not> mtx_transform_defined s1"
    by (rule UpdatePicture_plain_step [OF assms, of src r1])
  have changed: "source_changed s1 src'"
    using s1(4) diff by (simp add: source_changed_def)
  obtain s2 where s2: "vlc_gl_sampler_UpdatePicture s1 src' r2 None = Inr (r2, s2)"
    "interop s2 = Some i" "mtx_all_defined s2" "\<not> source_changed s2 src'"
    "\<not> mtx_transform_defined s2"
    "vlc_gl_sampler_MustRecomputeCoords s2 \<longleftrightarrow>
       \<not> mtx_all_defined s1 \<or> source_changed s1 src' \<or> mtx_transform_defined s1"
    by (rule UpdatePicture_plain_step [OF s1(2) assms(2), of src' r2])
  obtain s3 where s3: "vlc_gl_sampler_UpdatePicture s2 src' r3 None = Inr (r3, s3)"
    "vlc_gl_sampler_MustRecomputeCoords s3 \<longleftrightarrow>
       \<not> mtx_all_defined s2 \<or> source_changed s2 src' \<or> mtx_transform_defined s2"
    by (rule UpdatePicture_plain_step [OF s2(2) assms(2), of src' r3])
  show "\<exists>s2. UpdatePicture_seq s [(src, r1, None), (src', r2, None)] = Inr s2
                   \<and> vlc_gl_sampler_MustRecomputeCoords s2"
    using s1(1) s2(1,6) changed by simp
  show "\<exists>s3. UpdatePicture_seq s [(src, r1, None), (src', r2, None), (src', r3, None)] = Inr s3
                   \<and> \<not> vlc_gl_sampler_MustRecomputeCoords s3"
    using s1(1) s2(1,3,4,5) s3 by simp
qed

text \<open>
  The theorem at the frame-driven RGB sampler, with a 4x4 region at offset 0 and then a
  3x4 region at offset 1.
\<close>

theorem composite_change_detection_witness:
  "interop (rgb_frame_priv rgb_interop) = Some rgb_interop
   \<and> has_ops rgb_interop
   \<and> i_x_offset (rgb_fmt 1 0 3 4) \<noteq> i_x_offset (rgb_fmt 0 0 4 4)
   \<and> (\<exists>s2. UpdatePicture_seq (rgb_frame_priv rgb_interop)
               [(rgb_fmt 0 0 4 4, 0, None), (rgb_fmt 0 0 4 4, 0, None)] = Inr s2
           \<and> \<not> vlc_gl_sampler_MustRecomputeCoords s2)
   \<and> (\<exists>s2. UpdatePicture_seq (rgb_frame_priv rgb_interop)
               [(rgb_fmt 0 0 4 4, 0, None), (rgb_fmt 1 0 3 4, 0, None)] = Inr s2
           \<and> vlc_gl_sampler_MustRecomputeCoords s2)
   \<and> (\<exists>s3. UpdatePicture_seq (rgb_frame_priv rgb_interop)
               [(rgb_fmt 0 0 4 4, 0, None), (rgb_fmt 1 0 3 4, 0, None), (rgb_fmt 1 0 3 4, 0, None)]
               = Inr s3
           \<and> \<not> vlc_gl_sampler_MustRecomputeCoords s3)"
proof -
  have i: "interop (rgb_frame_priv rgb_interop) = Some rgb_interop"
    by (simp add: rgb_frame_priv_def)
  have o: "has_ops rgb_interop"
    by (simp add: rgb_interop_def)
  have x: "i_x_offset (rgb_fmt 1 0 3 4) \<noteq> i_x_offset (rgb_fmt 0 0 4 4)"
    by (simp add: rgb_fmt_def)
  note t = composite_change_detection [OF i o, of "rgb_fmt 0 0 4 4" 0 None 0 0 "rgb_fmt 1 0 3 4" 0]
  have same: "\<exists>s2. UpdatePicture_seq (rgb_frame_priv rgb_interop)
               [(rgb_fmt 0 0 4 4, 0, None), (rgb_fmt 0 0 4 4, 0, None)] = Inr s2
           \<and> \<not> vlc_gl_sampler_MustRecomputeCoords s2"
    by (rule conjunct1 [OF conjunct2 [OF t]])
  have moved: "(\<exists>s2. UpdatePicture_seq (rgb_frame_priv rgb_interop)
               [(rgb_fmt 0 0 4 4, 0, None), (rgb_fmt 1 0 3 4, 0, None)] = Inr s2
           \<and> vlc_gl_sampler_MustRecomputeCoords s2)
   \<and> (\<exists>s3. UpdatePicture_seq (rgb_frame_priv rgb_interop)
               [(rgb_fmt 0 0 4 4, 0, None), (rgb_fmt 1 0 3 4, 0, None), (rgb_fmt 1 0 3 4, 0, None)]
               = Inr s3
           \<and> \<not> vlc_gl_sampler_MustRecomputeCoords s3)"
    by (rule mp [OF conjunct2 [OF conjunct2 [OF t]] x])
  show ?thesis
    by (intro conjI i o x same conjunct1 [OF moved] conjunct2 [OF moved])
qed

text \<open>
  The claim as it is written fails when the interop answers with the same transform
  matrix for two frames of the same region: between the first and the second frame
  neither the coordinate map nor the transform matrix changes and the composite matrix
  is defined, and yet the second frame computes the composite matrix again (to the same
  value) and sets the flag.
\<close>

theorem unchanged_transform_still_reported:
  "(case vlc_gl_sampler_NewFromInterop rgb_env rgb_interop_tm False of
      Inl e \<Rightarrow> None
    | Inr s0 \<Rightarrow>
       (case vlc_gl_sampler_UpdatePicture s0 (rgb_fmt 0 0 4 4) VLC_SUCCESS (Some [1, 0, 0, 1, 0, 0]) of
          Inl e \<Rightarrow> None
        | Inr (r1, s1) \<Rightarrow>
           (case vlc_gl_sampler_UpdatePicture s1 (rgb_fmt 0 0 4 4) VLC_SUCCESS (Some [1, 0, 0, 1, 0, 0]) of
              Inl e \<Rightarrow> None
            | Inr (r2, s2) \<Rightarrow>
                Some (mtx_all_defined s1,
                      mtx_coords_map s2 = mtx_coords_map s1,
                      mtx_transform_defined s1, mtx_transform_defined s2,
                      mtx_transform s2 = mtx_transform s1,
                      mtx_all s2 = mtx_all s1,
                      vlc_gl_sampler_MustRecomputeCoords s2))))
   = Some (True, True, True, True, True, True, True)"
  by (simp only: rgb_sampler_tm)
     (simp add: calloc_priv_def update_defs example_defs memcpy_at_def replicate_5 replicate_6
        replicate_16 upt_rec)

subsection \<open>The conversion matrix\<close>

lemma length_fold_update:
  assumes "\<And>i m. length (f i m) = length m"
  shows "length (fold f xs m) = length m"
  using assms by (induction xs arbitrary: m) simp_all

lemma length_init_conv_matrix: "length (init_conv_matrix m sp rng) = length m"
  by (simp add: init_conv_matrix_def Let_def length_fold_update)

lemma bt601_limited:
  "init_conv_matrix (replicate 16 0) COLOR_SPACE_BT601 COLOR_RANGE_LIMITED = bt601_limited_matrix"
  by (simp add: init_conv_matrix_def matrix_defs bt601_limited_matrix_def replicate_16 upt_rec)

lemma init_conv_matrix_full_limited:
  "init_conv_matrix (replicate (4*4) 0) sp COLOR_RANGE_FULL \<noteq>
   init_conv_matrix (replicate (4*4) 0) sp COLOR_RANGE_LIMITED"
  by (cases sp) (simp_all add: init_conv_matrix_def matrix_defs replicate_16 upt_rec)

text \<open>The error of a rounded value, of a product and of the sum of three products.\<close>

lemma rounding_step:
  assumes "accurate u rnd" and "0 \<le> u" and "\<bar>x - c\<bar> \<le> e"
  shows "\<bar>rnd x - c\<bar> \<le> e + u * (\<bar>c\<bar> + e)"
proof -
  have "\<bar>rnd x - x\<bar> \<le> u * \<bar>x\<bar>" using assms(1) by (simp add: accurate_def)
  moreover have "\<bar>x\<bar> \<le> \<bar>c\<bar> + e" using assms(3) by linarith
  then have "u * \<bar>x\<bar> \<le> u * (\<bar>c\<bar> + e)" using assms(2) by (rule mult_left_mono)
  ultimately show ?thesis using assms(3) by linarith
qed

lemma product_error:
  fixes a b A B ea eb :: real
  assumes "\<bar>a - A\<bar> \<le> ea" and "\<bar>b - B\<bar> \<le> eb"
  shows "\<bar>a * b - A * B\<bar> \<le> ea * \<bar>B\<bar> + eb * \<bar>A\<bar> + ea * eb"
proof -
  have ea: "0 \<le> ea" and eb: "0 \<le> eb" using assms by linarith+
  have "a * b - A * B = (a - A) * B + A * (b - B) + (a - A) * (b - B)"
    by (simp add: algebra_simps)
  then have "\<bar>a * b - A * B\<bar> \<le> \<bar>(a - A) * B\<bar> + \<bar>A * (b - B)\<bar> + \<bar>(a - A) * (b - B)\<bar>"
    by linarith
  also have "\<dots> = \<bar>a - A\<bar> * \<bar>B\<bar> + \<bar>A\<bar> * \<bar>b - B\<bar> + \<bar>a - A\<bar> * \<bar>b - B\<bar>"
    by (simp add: abs_mult)
  also have "\<dots> \<le> ea * \<bar>B\<bar> + \<bar>A\<bar> * eb + ea * eb"
    using assms ea eb
    by (intro add_mono mult_right_mono mult_left_mono mult_mono) simp_all
  finally show ?thesis by (simp add: mult.commute)
qed

lemma product_rounding_error:
  assumes rm: "accurate (1 / 2 ^ 24) rm"
    and S: "\<bar>S\<bar> \<le> 2" and R: "\<bar>R\<bar> \<le> 6 / 5"
    and s: "\<bar>s - S\<bar> \<le> (1 / 2 ^ 23) * \<bar>S\<bar>" and r: "\<bar>r - R\<bar> \<le> (1 / 2 ^ 23) * \<bar>R\<bar>"
  shows "\<bar>rm (s * r) - S * R\<bar> \<le> 7 / 2 ^ 23" and "\<bar>S * R\<bar> \<le> 12 / 5"
proof -
  have ea: "\<bar>s - S\<bar> \<le> 2 / 2 ^ 23" using s S by simp
  have eb: "\<bar>r - R\<bar> \<le> (6 / 5) / 2 ^ 23" using r R by simp
  have "\<bar>s * r - S * R\<bar> \<le> (2 / 2 ^ 23) * \<bar>R\<bar> + ((6 / 5) / 2 ^ 23) * \<bar>S\<bar>
      + (2 / 2 ^ 23) * ((6 / 5) / 2 ^ 23)"
    by (rule product_error [OF ea eb])
  also have "\<dots> \<le> 5 / 2 ^ 23" using S R by simp
  finally have p: "\<bar>s * r - S * R\<bar> \<le> 5 / 2 ^ 23" .
  have "\<bar>S * R\<bar> = \<bar>S\<bar> * \<bar>R\<bar>" by (simp add: abs_mult)
  also have "\<dots> \<le> 2 * (6 / 5)" using S R by (intro mult_mono) simp_all
  finally show SR: "\<bar>S * R\<bar> \<le> 12 / 5" by simp
  have "\<bar>rm (s * r) - S * R\<bar> \<le> 5 / 2 ^ 23 + (1 / 2 ^ 24) * (\<bar>S * R\<bar> + 5 / 2 ^ 23)"
    by (rule rounding_step [OF rm _ p]) simp
  then show "\<bar>rm (s * r) - S * R\<bar> \<le> 7 / 2 ^ 23" using SR by simp argo
qed

lemma dot_error:
  assumes rd: "accurate (1 / 2 ^ 53) rd" and rf: "accurate (1 / 2 ^ 24) rf"
    and t0: "\<bar>t0 - T0\<bar> \<le> 7 / 2 ^ 23" and t1: "\<bar>t1 - T1\<bar> \<le> 7 / 2 ^ 23"
    and t2: "\<bar>t2 - T2\<bar> \<le> 7 / 2 ^ 23"
    and T0: "\<bar>T0\<bar> \<le> 12 / 5" and T1: "\<bar>T1\<bar> \<le> 12 / 5" and T2: "\<bar>T2\<bar> \<le> 12 / 5"
  shows "\<bar>rf (rd (rd (rd (0 + t0) + t1) + t2)) - (0 + T0 + T1 + T2)\<bar> \<le> 26 / 2 ^ 23"
proof -
  define p1 where "p1 = rd (0 + t0)"
  define p2 where "p2 = rd (p1 + t1)"
  define p3 where "p3 = rd (p2 + t2)"
  have "\<bar>(0 + t0) - T0\<bar> \<le> 7 / 2 ^ 23" using t0 by simp
  from rounding_step [OF rd _ this]
  have e1: "\<bar>p1 - T0\<bar> \<le> 7 / 2 ^ 23 + 3 / 2 ^ 53" using T0 by (simp add: p1_def) argo
  have "\<bar>(p1 + t1) - (T0 + T1)\<bar> \<le> 14 / 2 ^ 23 + 3 / 2 ^ 53" using e1 t1 by linarith
  from rounding_step [OF rd _ this]
  have e2: "\<bar>p2 - (T0 + T1)\<bar> \<le> 14 / 2 ^ 23 + 9 / 2 ^ 53" using T0 T1 by (simp add: p2_def) argo
  have "\<bar>(p2 + t2) - (T0 + T1 + T2)\<bar> \<le> 21 / 2 ^ 23 + 9 / 2 ^ 53" using e2 t2 by linarith
  from rounding_step [OF rd _ this]
  have e3: "\<bar>p3 - (T0 + T1 + T2)\<bar> \<le> 21 / 2 ^ 23 + 18 / 2 ^ 53"
    using T0 T1 T2 by (simp add: p3_def) argo
  from rounding_step [OF rf _ e3]
  have "\<bar>rf p3 - (T0 + T1 + T2)\<bar> \<le> 26 / 2 ^ 23" using T0 T1 T2 by simp argo
  then show ?thesis by (simp add: p1_def p2_def p3_def)
qed

text \<open>The cells of the two matrices, and how far apart they are.\<close>

lemma init_conv_matrix_float_exact:
  "init_conv_matrix_float exact_float_env m sp rng = init_conv_matrix m sp rng"
  by (cases sp)
     (simp_all add: init_conv_matrix_float_def init_conv_matrix_def exact_float_env_def
        float_space_matrix_of_def float_range_matrix_of_def space_matrix_of_def
        range_matrix_of_def conv_cell_float_def conv_cell_def)

lemma init_conv_matrix_cells:
  "init_conv_matrix (replicate 16 0) sp rng =
     (let c = conv_cell (space_matrix_of sp) (range_matrix_of rng)
      in [c 0 0, c 0 1, c 0 2, 0, c 1 0, c 1 1, c 1 2, 0,
          c 2 0, c 2 1, c 2 2, 0, c 3 0, c 3 1, c 3 2, 1])"
  by (simp add: init_conv_matrix_def replicate_16 upt_rec)
     (simp add: Let_def numeral_2_eq_2 numeral_3_eq_3)

lemma init_conv_matrix_float_cells:
  "init_conv_matrix_float fe (replicate 16 0) sp rng =
     (let c = conv_cell_float fe (float_space_matrix_of fe sp) (float_range_matrix_of fe rng)
      in [c 0 0, c 0 1, c 0 2, 0, c 1 0, c 1 1, c 1 2, 0,
          c 2 0, c 2 1, c 2 2, 0, c 3 0, c 3 1, c 3 2, 1])"
  by (simp add: init_conv_matrix_float_def replicate_16 upt_rec)
     (simp add: Let_def numeral_2_eq_2 numeral_3_eq_3)

lemma space_matrix_bounds:
  "length (space_matrix_of sp) = 9" "i < 9 \<Longrightarrow> \<bar>space_matrix_of sp ! i\<bar> \<le> 2"
proof -
  show "length (space_matrix_of sp) = 9"
    by (cases sp) (simp_all add: matrix_defs)
  assume "i < 9"
  then have "i \<in> set [0..<9]" by simp
  then show "\<bar>space_matrix_of sp ! i\<bar> \<le> 2"
    by (cases sp) (auto simp: matrix_defs upt_rec)
qed

lemma range_matrix_bounds:
  "length (range_matrix_of rng) = 12" "i < 12 \<Longrightarrow> \<bar>range_matrix_of rng ! i\<bar> \<le> 6 / 5"
proof -
  show "length (range_matrix_of rng) = 12"
    by (simp add: matrix_defs)
  assume "i < 12"
  then have "i \<in> set [0..<12]" by simp
  then show "\<bar>range_matrix_of rng ! i\<bar> \<le> 6 / 5"
    by (auto simp: matrix_defs upt_rec)
qed

lemma conv_cell_float_unfold:
  "conv_cell_float fe S R x y =
     to_float fe
       (add_double fe
         (add_double fe
           (add_double fe (0 + mul_float fe (S ! (y * 3) * R ! x))
            + mul_float fe (S ! (y * 3 + 1) * R ! (4 + x)))
          + mul_float fe (S ! (y * 3 + 2) * R ! (8 + x))))"
  by (simp add: conv_cell_float_def upt_rec)

lemma conv_cell_unfold:
  "conv_cell S R x y =
     0 + S ! (y * 3) * R ! x + S ! (y * 3 + 1) * R ! (4 + x) + S ! (y * 3 + 2) * R ! (8 + x)"
  by (simp add: conv_cell_def upt_rec)

lemma float_tables_accurate:
  assumes "float_env_accurate fe"
  shows "table_accurate (float_space_matrix_of fe sp) (space_matrix_of sp)"
    and "table_accurate (float_range_matrix_of fe rng) (range_matrix_of rng)"
  using assms
  by (cases sp; simp add: float_env_accurate_def float_space_matrix_of_def space_matrix_of_def
        float_range_matrix_of_def range_matrix_of_def)+

lemma table_accurate_nth:
  assumes "table_accurate t e" and "i < length e"
  shows "\<bar>t ! i - e ! i\<bar> \<le> (1 / 2 ^ 23) * \<bar>e ! i\<bar>"
  using assms by (simp add: table_accurate_def)

lemma cell_accuracy:
  assumes fe: "float_env_accurate fe" and x: "x < 4" and y: "y < 3"
  shows "\<bar>conv_cell_float fe (float_space_matrix_of fe sp) (float_range_matrix_of fe rng) x y
          - conv_cell (space_matrix_of sp) (range_matrix_of rng) x y\<bar> \<le> 26 / 2 ^ 23"
proof -
  let ?S' = "float_space_matrix_of fe sp" and ?S = "space_matrix_of sp"
  let ?R' = "float_range_matrix_of fe rng" and ?R = "range_matrix_of rng"
  have rm: "accurate (1 / 2 ^ 24) (mul_float fe)" and rf: "accurate (1 / 2 ^ 24) (to_float fe)"
    and rd: "accurate (1 / 2 ^ 53) (add_double fe)"
    using fe by (simp_all add: float_env_accurate_def)
  have prd: "\<bar>mul_float fe (?S' ! i * ?R' ! j) - ?S ! i * ?R ! j\<bar> \<le> 7 / 2 ^ 23"
    "\<bar>?S ! i * ?R ! j\<bar> \<le> 12 / 5" if "i < 9" and "j < 12" for i j
  proof -
    have s: "\<bar>?S' ! i - ?S ! i\<bar> \<le> (1 / 2 ^ 23) * \<bar>?S ! i\<bar>"
      using that(1) by (intro table_accurate_nth float_tables_accurate [OF fe])
        (simp add: space_matrix_bounds)
    have r: "\<bar>?R' ! j - ?R ! j\<bar> \<le> (1 / 2 ^ 23) * \<bar>?R ! j\<bar>"
      using that(2) by (intro table_accurate_nth float_tables_accurate [OF fe])
        (simp add: range_matrix_bounds)
    show "\<bar>mul_float fe (?S' ! i * ?R' ! j) - ?S ! i * ?R ! j\<bar> \<le> 7 / 2 ^ 23"
      by (rule product_rounding_error(1) [OF rm space_matrix_bounds(2) [OF that(1)]
            range_matrix_bounds(2) [OF that(2)] s r])
    show "\<bar>?S ! i * ?R ! j\<bar> \<le> 12 / 5"
      by (rule product_rounding_error(2) [OF rm space_matrix_bounds(2) [OF that(1)]
            range_matrix_bounds(2) [OF that(2)] s r])
  qed
  have i0: "y * 3 < 9" and i1: "y * 3 + 1 < 9" and i2: "y * 3 + 2 < 9" using y by simp_all
  have j0: "x < 12" and j1: "4 + x < 12" and j2: "8 + x < 12" using x by simp_all
  show ?thesis
    unfolding conv_cell_float_unfold conv_cell_unfold
    by (rule dot_error [OF rd rf prd(1) [OF i0 j0] prd(1) [OF i1 j1] prd(1) [OF i2 j2]
          prd(2) [OF i0 j0] prd(2) [OF i1 j1] prd(2) [OF i2 j2]])
qed

lemma mat4_mul_vec4_cells:
  "mat4_mul_vec4 [m0, m1, m2, m3, m4, m5, m6, m7, m8, m9, m10, m11, m12, m13, m14, m15]
     [v0, v1, v2, v3] =
   [m0 * v0 + m4 * v1 + m8 * v2 + m12 * v3,
    m1 * v0 + m5 * v1 + m9 * v2 + m13 * v3,
    m2 * v0 + m6 * v1 + m10 * v2 + m14 * v3,
    m3 * v0 + m7 * v1 + m11 * v2 + m15 * v3]"
  by (simp add: mat4_mul_vec4_def upt_rec)

text \<open>
  In exact arithmetic the image of the neutral input is black itself, for every colour space;
  the default case of the switch gives BT.709 for \<open>COLOR_SPACE_UNDEF\<close>.
\<close>

lemma neutral_gray_exact:
  "mat4_mul_vec4 (init_conv_matrix (replicate 16 0) sp COLOR_RANGE_LIMITED)
       [16/255, 128/255, 128/255, 1] = [0, 0, 0, 1]"
  "mat4_mul_vec4 (init_conv_matrix (replicate 16 0) sp COLOR_RANGE_FULL)
       [0, 128/255, 128/255, 1] = [0, 0, 0, 1]"
  by (cases sp;
      simp add: init_conv_matrix_def mat4_mul_vec4_def matrix_defs replicate_16 upt_rec)+

text \<open>A row of a matrix near one that maps the vector to zero.\<close>

lemma near_zero_row:
  fixes a0 a1 a2 a3 b0 b1 b2 b3 :: real
  assumes "\<bar>a0 - b0\<bar> \<le> 26 / 2 ^ 23" and "\<bar>a1 - b1\<bar> \<le> 26 / 2 ^ 23"
    and "\<bar>a2 - b2\<bar> \<le> 26 / 2 ^ 23" and "\<bar>a3 - b3\<bar> \<le> 26 / 2 ^ 23"
  shows "b0 * (16/255) + b1 * (128/255) + b2 * (128/255) + b3 * 1 = 0 \<Longrightarrow>
         \<bar>a0 * (16/255) + a1 * (128/255) + a2 * (128/255) + a3 * 1\<bar> \<le> 1 / 10 ^ 5"
    and "b0 * 0 + b1 * (128/255) + b2 * (128/255) + b3 * 1 = 0 \<Longrightarrow>
         \<bar>a0 * 0 + a1 * (128/255) + a2 * (128/255) + a3 * 1\<bar> \<le> 1 / 10 ^ 5"
  using assms by simp_all argo+

text \<open>
  Claim C6 (for the three YUV standards and both ranges, the matrix of
  \<^verbatim>\<open>init_conv_matrix\<close> maps the neutral input of its range to black within
  epsilon).
  On every machine whose roundings and tables are accurate in the sense of
  \<open>float_env_accurate\<close>, each of the three colour components of the image is at most
  \<open>10^-5\<close> in absolute value, less than a hundredth of a step of an 8-bit output: the
  matrix built for limited range is applied to \<open>(16/255, 128/255, 128/255, 1)\<close> and the
  matrix built for full range to \<open>(0, 128/255, 128/255, 1)\<close>. The colour space ranges
  over the whole enumeration. The product of the matrix and the vector is the exact one:
  it is the shader that computes it, outside this file.
\<close>

theorem neutral_gray_within_epsilon:
  assumes "float_env_accurate fe"
  shows "(\<forall>row<3. \<bar>mat4_mul_vec4
                      (init_conv_matrix_float fe (replicate (4*4) 0) sp COLOR_RANGE_LIMITED)
                      [16/255, 128/255, 128/255, 1] ! row\<bar> \<le> 1 / 10 ^ 5)
       \<and> (\<forall>row<3. \<bar>mat4_mul_vec4
                      (init_conv_matrix_float fe (replicate (4*4) 0) sp COLOR_RANGE_FULL)
                      [0, 128/255, 128/255, 1] ! row\<bar> \<le> 1 / 10 ^ 5)"
proof -
  have row: "\<bar>mat4_mul_vec4 (init_conv_matrix_float fe (replicate 16 0) sp rng) v ! row\<bar> \<le> 1 / 10 ^ 5"
    if v: "rng = COLOR_RANGE_LIMITED \<and> v = [16/255, 128/255, 128/255, 1]
         \<or> rng = COLOR_RANGE_FULL \<and> v = [0, 128/255, 128/255, 1]" and "row < 3" for rng v row
  proof -
    let ?a = "conv_cell_float fe (float_space_matrix_of fe sp) (float_range_matrix_of fe rng)"
    let ?b = "conv_cell (space_matrix_of sp) (range_matrix_of rng)"
    have near: "\<bar>?a x row - ?b x row\<bar> \<le> 26 / 2 ^ 23" if "x < 4" for x
      by (rule cell_accuracy [OF assms that \<open>row < 3\<close>])
    have n: "\<bar>?a 0 row - ?b 0 row\<bar> \<le> 26 / 2 ^ 23" "\<bar>?a 1 row - ?b 1 row\<bar> \<le> 26 / 2 ^ 23"
      "\<bar>?a 2 row - ?b 2 row\<bar> \<le> 26 / 2 ^ 23" "\<bar>?a 3 row - ?b 3 row\<bar> \<le> 26 / 2 ^ 23"
      by (rule near, simp)+
    from \<open>row < 3\<close> have r: "row = 0 \<or> row = 1 \<or> row = 2" by linarith
    from v show ?thesis
    proof (elim disjE conjE)
      assume rng: "rng = COLOR_RANGE_LIMITED" and vv: "v = [16/255, 128/255, 128/255, 1]"
      have z: "?b 0 row * (16/255) + ?b 1 row * (128/255) + ?b 2 row * (128/255) + ?b 3 row * 1 = 0"
        using neutral_gray_exact(1) [of sp] r
        by (auto simp: init_conv_matrix_cells Let_def mat4_mul_vec4_cells rng)
      have "\<bar>?a 0 row * (16/255) + ?a 1 row * (128/255) + ?a 2 row * (128/255) + ?a 3 row * 1\<bar>
          \<le> 1 / 10 ^ 5"
        by (rule near_zero_row(1) [OF n z])
      then show ?thesis
        using r by (auto simp: init_conv_matrix_float_cells Let_def mat4_mul_vec4_cells vv)
    next
      assume rng: "rng = COLOR_RANGE_FULL" and vv: "v = [0, 128/255, 128/255, 1]"
      have z: "?b 0 row * 0 + ?b 1 row * (128/255) + ?b 2 row * (128/255) + ?b 3 row * 1 = 0"
        using neutral_gray_exact(2) [of sp] r
        by (auto simp: init_conv_matrix_cells Let_def mat4_mul_vec4_cells rng)
      have "\<bar>?a 0 row * 0 + ?a 1 row * (128/255) + ?a 2 row * (128/255) + ?a 3 row * 1\<bar>
          \<le> 1 / 10 ^ 5"
        by (rule near_zero_row(2) [OF n z])
      then show ?thesis
        using r by (auto simp: init_conv_matrix_float_cells Let_def mat4_mul_vec4_cells vv)
    qed
  qed
  show ?thesis
    using row by simp
qed

lemma accurate_id: "0 \<le> u \<Longrightarrow> accurate u (\<lambda>x. x)"
  by (simp add: accurate_def)

lemma table_accurate_refl: "table_accurate e e"
  by (simp add: table_accurate_def)

lemma exact_float_env_accurate: "float_env_accurate exact_float_env"
  by (simp add: float_env_accurate_def exact_float_env_def accurate_id table_accurate_refl)

lemma skewed_float_env_accurate: "float_env_accurate skewed_float_env"
proof -
  have "table_accurate (MATRIX_COLOR_RANGE_LIMITED[0 := 255/219 * (1 + 1 / 2 ^ 23)])
          MATRIX_COLOR_RANGE_LIMITED"
    unfolding table_accurate_def
  proof (intro conjI allI impI)
    show "length (MATRIX_COLOR_RANGE_LIMITED[0 := 255/219 * (1 + 1 / 2 ^ 23)])
        = length MATRIX_COLOR_RANGE_LIMITED" by simp
    fix i assume "i < length MATRIX_COLOR_RANGE_LIMITED"
    show "\<bar>MATRIX_COLOR_RANGE_LIMITED[0 := 255/219 * (1 + 1 / 2 ^ 23)] ! i
            - MATRIX_COLOR_RANGE_LIMITED ! i\<bar>
          \<le> 1 / 2 ^ 23 * \<bar>MATRIX_COLOR_RANGE_LIMITED ! i\<bar>"
      by (cases "i = 0") (simp_all add: MATRIX_COLOR_RANGE_LIMITED_def)
  qed
  then show ?thesis
    by (simp add: float_env_accurate_def skewed_float_env_def exact_float_env_def accurate_id
        table_accurate_refl)
qed

theorem neutral_gray_within_epsilon_witness:
  "float_env_accurate skewed_float_env
   \<and> mat4_mul_vec4
        (init_conv_matrix_float skewed_float_env (replicate (4*4) 0) COLOR_SPACE_BT601
           COLOR_RANGE_LIMITED)
        [16/255, 128/255, 128/255, 1] = [1 / 114819072, 1 / 114819072, 1 / 114819072, 1]
   \<and> \<bar>mat4_mul_vec4
        (init_conv_matrix_float skewed_float_env (replicate (4*4) 0) COLOR_SPACE_BT601
           COLOR_RANGE_LIMITED)
        [16/255, 128/255, 128/255, 1] ! 0\<bar> \<le> 1 / 10 ^ 5"
proof -
  note t = neutral_gray_within_epsilon [OF skewed_float_env_accurate, of COLOR_SPACE_BT601]
  have b: "\<bar>mat4_mul_vec4
        (init_conv_matrix_float skewed_float_env (replicate (4*4) 0) COLOR_SPACE_BT601
           COLOR_RANGE_LIMITED)
        [16/255, 128/255, 128/255, 1] ! 0\<bar> \<le> 1 / 10 ^ 5"
    using conjunct1 [OF t] by simp
  have v: "mat4_mul_vec4
        (init_conv_matrix_float skewed_float_env (replicate (4*4) 0) COLOR_SPACE_BT601
           COLOR_RANGE_LIMITED)
        [16/255, 128/255, 128/255, 1] = [1 / 114819072, 1 / 114819072, 1 / 114819072, 1]"
    by (simp add: init_conv_matrix_float_def conv_cell_float_def float_space_matrix_of_def
        float_range_matrix_of_def skewed_float_env_def exact_float_env_def
        mat4_mul_vec4_def matrix_defs replicate_16 upt_rec)
  show ?thesis by (intro conjI skewed_float_env_accurate v b)
qed

text \<open>The cells of the matrix after each step of \<^verbatim>\<open>sampler_yuv_base_init\<close>.\<close>

lemma fold_scale_cells:
  "fold (\<lambda>i m. m[i := m ! i * r]) [0..<4*3]
     [m0, m1, m2, m3, m4, m5, m6, m7, m8, m9, m10, m11, m12, m13, m14, m15] =
   [m0 * r, m1 * r, m2 * r, m3 * r, m4 * r, m5 * r, m6 * r, m7 * r,
    m8 * r, m9 * r, m10 * r, m11 * r, m12, m13, m14, m15]"
  by (simp add: upt_rec)

lemma scale_columns_cells:
  "scale_columns_0_2 r [m0, m1, m2, m3, m4, m5, m6, m7, m8, m9, m10, m11, m12, m13, m14, m15] =
   [m0 * r, m1 * r, m2 * r, m3 * r, m4 * r, m5 * r, m6 * r, m7 * r,
    m8 * r, m9 * r, m10 * r, m11 * r, m12, m13, m14, m15]"
  by (simp add: scale_columns_0_2_def upt_rec)

lemma scale_rows_cells:
  "scale_rows_0_2 r [m0, m1, m2, m3, m4, m5, m6, m7, m8, m9, m10, m11, m12, m13, m14, m15] =
   [m0 * r, m1 * r, m2 * r, m3, m4 * r, m5 * r, m6 * r, m7,
    m8 * r, m9 * r, m10 * r, m11, m12 * r, m13 * r, m14 * r, m15]"
  by (simp add: scale_rows_0_2_def upt_rec)

lemma swap_columns_cells:
  "swap_columns_1_2 [m0, m1, m2, m3, m4, m5, m6, m7, m8, m9, m10, m11, m12, m13, m14, m15] =
   [m0, m1, m2, m3, m8, m9, m10, m11, m4, m5, m6, m7, m12, m13, m14, m15]"
  by (simp add: swap_columns_1_2_def memcpy_at_def Let_def upt_rec replicate_4)

lemma exchange_columns_cells:
  "exchange_columns_1_2 [m0, m1, m2, m3, m4, m5, m6, m7, m8, m9, m10, m11, m12, m13, m14, m15] =
   [m0, m1, m2, m3, m8, m9, m10, m11, m4, m5, m6, m7, m12, m13, m14, m15]"
  by (simp add: exchange_columns_1_2_def upt_rec)

lemma apply_yuv_range_correction_columns:
  assumes "length m = 16"
  shows "apply_yuv_range_correction m chroma desc =
     (if pixel_size desc = 2 \<and> chroma \<noteq> VLC_CODEC_P010 \<and> chroma \<noteq> VLC_CODEC_P016
      then scale_columns_0_2 (yuv_range_correction desc) m else m)"
proof -
  from list_of_length_16 [OF assms] obtain m0 m1 m2 m3 m4 m5 m6 m7 m8 m9 m10 m11 m12 m13 m14 m15
    where "m = [m0, m1, m2, m3, m4, m5, m6, m7, m8, m9, m10, m11, m12, m13, m14, m15]"
    by blast
  then show ?thesis
    by (simp only: apply_yuv_range_correction_def fold_scale_cells scale_columns_cells) simp
qed

lemma length_apply_yuv_range_correction:
  "length (apply_yuv_range_correction m chroma desc) = length m"
  by (simp add: apply_yuv_range_correction_def length_fold_update)

lemma swap_columns_exchange:
  assumes "length m = 16"
  shows "swap_columns_1_2 m = exchange_columns_1_2 m"
    and "swap_columns_1_2 (swap_columns_1_2 m) = m"
proof -
  from list_of_length_16 [OF assms] obtain m0 m1 m2 m3 m4 m5 m6 m7 m8 m9 m10 m11 m12 m13 m14 m15
    where m: "m = [m0, m1, m2, m3, m4, m5, m6, m7, m8, m9, m10, m11, m12, m13, m14, m15]"
    by blast
  show "swap_columns_1_2 m = exchange_columns_1_2 m"
    by (simp only: m swap_columns_cells exchange_columns_cells)
  show "swap_columns_1_2 (swap_columns_1_2 m) = m"
    by (simp only: m swap_columns_cells)
qed

lemma conv_matrix_sampler_yuv_base_init:
  "conv_matrix (snd (sampler_yuv_base_init priv chroma desc sp)) =
     (let base = apply_yuv_range_correction
                   (init_conv_matrix (conv_matrix priv) sp COLOR_RANGE_LIMITED) chroma desc
      in if swap_uv chroma then swap_columns_1_2 base else base)"
  by (simp add: sampler_yuv_base_init_def Let_def)

lemma len16: "length (conv_matrix (calloc_priv f)) = 16"
  by (simp add: calloc_priv_def)

text \<open>
  Claim C7, as the code has it. The claim says that the first three rows of the matrix
  are multiplied by the correction factor; the loop multiplies the first \<open>4*3\<close> cells
  of the column-major array, which are the first three columns. Amended: for a source on
  2-byte samples whose chroma is neither P010 nor P016, the first three columns of the
  conversion matrix (the coefficients of Y, U and V) are multiplied by
  \<open>(2^16 - 1) / (2^bit_depth - 1)\<close>, which is \<open>65535/1023\<close> for 10 bits, and the
  fourth column (the constant terms) is left as it is; this happens after the product of
  the space and range matrices and before the exchange of U and V; P010, P016 and the
  sources on samples of another size are not scaled.
\<close>

theorem bit_depth_correction_scales_columns:
  assumes "length (conv_matrix priv) = 16"
  shows "conv_matrix (snd (sampler_yuv_base_init priv chroma desc sp)) =
     (if swap_uv chroma then swap_columns_1_2 else id)
       ((if pixel_size desc = 2 \<and> chroma \<noteq> VLC_CODEC_P010 \<and> chroma \<noteq> VLC_CODEC_P016
         then scale_columns_0_2 (65535 / (2 ^ pixel_bits desc - 1)) else id)
          (init_conv_matrix (conv_matrix priv) sp COLOR_RANGE_LIMITED))
   \<and> (pixel_bits desc = 10 \<longrightarrow> yuv_range_correction desc = 65535 / 1023)"
  using assms
  by (simp add: conv_matrix_sampler_yuv_base_init Let_def apply_yuv_range_correction_columns
      length_init_conv_matrix yuv_range_correction_def)

text \<open>
  The theorem at a planar format with 10-bit samples on two bytes and at P010, for BT.601.
\<close>

theorem bit_depth_correction_scales_columns_witness:
  "length (conv_matrix (calloc_priv (yuv_fmt (VLC_CODEC_OTHER 0) COLOR_SPACE_BT601 COLOR_RANGE_LIMITED))) = 16
   \<and> pixel_size yuv10_desc = 2 \<and> pixel_bits yuv10_desc = 10
   \<and> conv_matrix (snd (sampler_yuv_base_init
         (calloc_priv (yuv_fmt (VLC_CODEC_OTHER 0) COLOR_SPACE_BT601 COLOR_RANGE_LIMITED))
         (VLC_CODEC_OTHER 0) yuv10_desc COLOR_SPACE_BT601))
       = scale_columns_0_2 (65535 / 1023) bt601_limited_matrix
   \<and> conv_matrix (snd (sampler_yuv_base_init
         (calloc_priv (yuv_fmt (VLC_CODEC_OTHER 0) COLOR_SPACE_BT601 COLOR_RANGE_LIMITED))
         VLC_CODEC_P010 yuv10_desc COLOR_SPACE_BT601))
       = bt601_limited_matrix
   \<and> yuv_range_correction yuv10_desc = 65535 / 1023"
  using bit_depth_correction_scales_columns [OF len16, of "yuv_fmt (VLC_CODEC_OTHER 0) COLOR_SPACE_BT601 COLOR_RANGE_LIMITED" "VLC_CODEC_OTHER 0" yuv10_desc COLOR_SPACE_BT601]
    bit_depth_correction_scales_columns [OF len16, of "yuv_fmt (VLC_CODEC_OTHER 0) COLOR_SPACE_BT601 COLOR_RANGE_LIMITED" VLC_CODEC_P010 yuv10_desc COLOR_SPACE_BT601]
  by (simp add: swap_uv_def yuv10_desc_def calloc_priv_def bt601_limited)

text \<open>
  The claim as it is written fails on the constant term of the first row (cell 12 of the
  array): for a 10-bit source the code leaves it as \<^verbatim>\<open>init_conv_matrix\<close> computed
  it, and scaling the first three rows would multiply it by \<open>65535/1023\<close>.
\<close>

theorem bias_column_is_not_scaled:
  "conv_matrix (snd (sampler_yuv_base_init
         (calloc_priv (yuv_fmt (VLC_CODEC_OTHER 0) COLOR_SPACE_BT601 COLOR_RANGE_LIMITED))
         (VLC_CODEC_OTHER 0) yuv10_desc COLOR_SPACE_BT601)) ! 12 = - (167519 / 191625)
   \<and> scale_rows_0_2 (65535 / 1023)
         (init_conv_matrix (replicate (4*4) 0) COLOR_SPACE_BT601 COLOR_RANGE_LIMITED) ! 12
       = - (167519 / 191625) * (65535 / 1023)"
  by (simp add: conv_matrix_sampler_yuv_base_init swap_uv_def calloc_priv_def bt601_limited
        apply_yuv_range_correction_def yuv10_desc_def bt601_limited_matrix_def
        yuv_range_correction_def scale_rows_cells upt_rec)

text \<open>
  Claim C8 (for YV12, YV9 and NV21, and for no other chroma, the columns 1 and 2 of the
  conversion matrix are exchanged as the last step; the exchange is an involution).
  The matrix that \<^verbatim>\<open>sampler_yuv_base_init\<close> stores is the matrix after the
  bit-depth correction, with its columns 1 and 2 exchanged (every cell keeping its row)
  exactly for the three chromas; and exchanging the columns of the stored matrix twice,
  with the three \<^verbatim>\<open>memcpy\<close> of the code, gives the stored matrix again.
\<close>

theorem uv_swap_columns:
  assumes "length (conv_matrix priv) = 16"
  shows "conv_matrix (snd (sampler_yuv_base_init priv chroma desc sp)) =
     (if chroma = VLC_CODEC_YV12 \<or> chroma = VLC_CODEC_YV9 \<or> chroma = VLC_CODEC_NV21
      then exchange_columns_1_2 else id)
       (apply_yuv_range_correction
          (init_conv_matrix (conv_matrix priv) sp COLOR_RANGE_LIMITED) chroma desc)
   \<and> swap_columns_1_2 (swap_columns_1_2 (conv_matrix (snd (sampler_yuv_base_init priv chroma desc sp))))
       = conv_matrix (snd (sampler_yuv_base_init priv chroma desc sp))"
proof -
  let ?base = "apply_yuv_range_correction
          (init_conv_matrix (conv_matrix priv) sp COLOR_RANGE_LIMITED) chroma desc"
  have len: "length ?base = 16"
    using assms by (simp add: length_apply_yuv_range_correction length_init_conv_matrix)
  let ?R = "conv_matrix (snd (sampler_yuv_base_init priv chroma desc sp))"
  have res: "?R = (if swap_uv chroma then swap_columns_1_2 ?base else ?base)"
    by (simp add: conv_matrix_sampler_yuv_base_init Let_def)
  have first: "?R = (if chroma = VLC_CODEC_YV12 \<or> chroma = VLC_CODEC_YV9 \<or> chroma = VLC_CODEC_NV21
      then exchange_columns_1_2 else id) ?base"
    unfolding res using swap_columns_exchange(1) [OF len] by (simp add: swap_uv_def)
  have "length ?R = 16"
    unfolding first using len by (simp add: exchange_columns_1_2_def)
  then have second: "swap_columns_1_2 (swap_columns_1_2 ?R) = ?R"
    by (rule swap_columns_exchange(2))
  show ?thesis by (intro conjI first second)
qed

text \<open>The theorem at YV12 with 8-bit samples, for BT.601.\<close>

theorem uv_swap_columns_witness:
  "length (conv_matrix (calloc_priv (yuv_fmt VLC_CODEC_YV12 COLOR_SPACE_BT601 COLOR_RANGE_LIMITED))) = 16
   \<and> conv_matrix (snd (sampler_yuv_base_init
         (calloc_priv (yuv_fmt VLC_CODEC_YV12 COLOR_SPACE_BT601 COLOR_RANGE_LIMITED))
         VLC_CODEC_YV12 yuv8_desc COLOR_SPACE_BT601))
       = bt601_limited_matrix_vu
   \<and> swap_columns_1_2 bt601_limited_matrix_vu = bt601_limited_matrix
   \<and> swap_columns_1_2 bt601_limited_matrix = bt601_limited_matrix_vu"
proof -
  let ?p = "calloc_priv (yuv_fmt VLC_CODEC_YV12 COLOR_SPACE_BT601 COLOR_RANGE_LIMITED)"
  have base: "apply_yuv_range_correction
          (init_conv_matrix (conv_matrix ?p) COLOR_SPACE_BT601 COLOR_RANGE_LIMITED)
          VLC_CODEC_YV12 yuv8_desc = bt601_limited_matrix"
    by (simp add: calloc_priv_def bt601_limited apply_yuv_range_correction_def yuv8_desc_def
       )
  have ex: "exchange_columns_1_2 bt601_limited_matrix = bt601_limited_matrix_vu"
    by (simp add: bt601_limited_matrix_def bt601_limited_matrix_vu_def exchange_columns_cells)
  have sw: "swap_columns_1_2 bt601_limited_matrix = bt601_limited_matrix_vu"
    by (simp add: bt601_limited_matrix_def bt601_limited_matrix_vu_def swap_columns_cells)
  note t = uv_swap_columns [OF len16, of "yuv_fmt VLC_CODEC_YV12 COLOR_SPACE_BT601 COLOR_RANGE_LIMITED"
      VLC_CODEC_YV12 yuv8_desc COLOR_SPACE_BT601]
  have r: "conv_matrix (snd (sampler_yuv_base_init ?p VLC_CODEC_YV12 yuv8_desc COLOR_SPACE_BT601))
       = bt601_limited_matrix_vu"
    using conjunct1 [OF t] unfolding base by (simp add: ex)
  have inv: "swap_columns_1_2 (swap_columns_1_2
        (conv_matrix (snd (sampler_yuv_base_init ?p VLC_CODEC_YV12 yuv8_desc COLOR_SPACE_BT601))))
       = conv_matrix (snd (sampler_yuv_base_init ?p VLC_CODEC_YV12 yuv8_desc COLOR_SPACE_BT601))"
    by (rule conjunct2 [OF t])
  from inv have "swap_columns_1_2 (swap_columns_1_2 bt601_limited_matrix_vu) = bt601_limited_matrix_vu"
    by (simp only: r)
  moreover have "swap_columns_1_2 bt601_limited_matrix_vu = bt601_limited_matrix"
    by (simp add: bt601_limited_matrix_def bt601_limited_matrix_vu_def swap_columns_cells)
  ultimately show ?thesis using r sw len16 by simp
qed

subsection \<open>The range tag of the format\<close>

text \<open>
  The construction reads the chroma, the colour space and the orientation of the format,
  and keeps a copy of the format in the sampler; nothing else depends on it.
\<close>

lemma opengl_fragment_shader_init_color_range:
  "opengl_fragment_shader_init env priv tgt (f\<lparr> color_range := r \<rparr>) expose =
   opengl_fragment_shader_init env priv tgt f expose"
  by (simp add: opengl_fragment_shader_init_def)

lemma sampler_yuv_base_init_fmt:
  "sampler_yuv_base_init (priv\<lparr> fmt := g \<rparr>) chroma desc sp =
     (fst (sampler_yuv_base_init priv chroma desc sp),
      (snd (sampler_yuv_base_init priv chroma desc sp))\<lparr> fmt := g \<rparr>)"
  by (simp add: sampler_yuv_base_init_def Let_def)

lemma InitShaderExtensions_fmt:
  "InitShaderExtensions env (priv\<lparr> fmt := g \<rparr>) tgt =
     map_sum id (\<lambda>p. p\<lparr> fmt := g \<rparr>) (InitShaderExtensions env priv tgt)"
  by (simp add: InitShaderExtensions_def)

lemma sampler_planes_init_fmt:
  "sampler_planes_init env (priv\<lparr> fmt := g \<rparr>) =
     map_sum id (\<lambda>p. p\<lparr> fmt := g \<rparr>) (sampler_planes_init env priv)"
  by (simp add: sampler_planes_init_def InitShaderExtensions_def)

lemma xyz12_shader_init_fmt:
  "xyz12_shader_init env (priv\<lparr> fmt := g \<rparr>) =
     map_sum id (\<lambda>p. p\<lparr> fmt := g \<rparr>) (xyz12_shader_init env priv)"
  by (simp add: xyz12_shader_init_def)

lemma yuv_init_fmt:
  "yuv_init env (priv\<lparr> fmt := g \<rparr>) sw chroma desc sp =
     map_sum id (\<lambda>(p, sw). (p\<lparr> fmt := g \<rparr>, sw)) (yuv_init env priv sw chroma desc sp)"
  by (simp add: yuv_init_def sampler_yuv_base_init_fmt split_beta split: sum.splits)

lemma shader_body_fmt:
  "shader_body env (priv\<lparr> fmt := g \<rparr>) tgt is_yuv sp sw =
     map_sum id (\<lambda>p. p\<lparr> fmt := g \<rparr>) (shader_body env priv tgt is_yuv sp sw)"
  by (simp add: shader_body_def InitShaderExtensions_def split: sum.splits)

lemma opengl_fragment_shader_init_fmt:
  "opengl_fragment_shader_init env (priv\<lparr> fmt := g \<rparr>) tgt f expose =
     map_sum id (\<lambda>p. p\<lparr> fmt := g \<rparr>) (opengl_fragment_shader_init env priv tgt f expose)"
proof (cases "GetChromaDescription env (i_chroma f)")
  case None
  then show ?thesis by (simp add: opengl_fragment_shader_init_def)
next
  case (Some desc)
  define P1 :: "vlc_gl_sampler_priv \<Rightarrow> vlc_gl_sampler_priv" where "P1 = (\<lambda>q. q\<lparr> tex_target := tgt, expose_planes := expose, plane := 0,
     tex_count := plane_count desc,
     mtx_orientation := InitOrientationMatrix (mtx_orientation q) (orientation f) \<rparr>)"
  define sw0 :: "string option list" where "sw0 = replicate PICTURE_PLANE_MAX None"
  have r: "opengl_fragment_shader_init env q tgt f expose =
    (if expose then sampler_planes_init env (P1 q)
     else if i_chroma f = VLC_CODEC_XYZ12 then xyz12_shader_init env (P1 q)
     else (case (if IsYUV env (i_chroma f)
                 then yuv_init env (P1 q) sw0 (i_chroma f) desc (space f)
                 else Inr (P1 q, sw0)) of
             Inl e \<Rightarrow> Inl e
           | Inr (p, sw) \<Rightarrow> shader_body env p tgt (IsYUV env (i_chroma f)) (space f) sw))" for q
    using Some by (simp add: opengl_fragment_shader_init_def Let_def P1_def sw0_def)
  have c: "P1 (priv\<lparr> fmt := g \<rparr>) = (P1 priv)\<lparr> fmt := g \<rparr>"
    by (simp add: P1_def)
  show ?thesis
    unfolding r c
    by (cases "yuv_init env (P1 priv) sw0 (i_chroma f) desc (space f)")
       (auto simp: sampler_planes_init_fmt xyz12_shader_init_fmt yuv_init_fmt shader_body_fmt)
qed

lemma texture_sizes_fmt:
  "texture_sizes env i j (p\<lparr> fmt := g \<rparr>) = (texture_sizes env i j p)\<lparr> fmt := g \<rparr>"
  by (simp add: texture_sizes_def Let_def)

lemma fold_texture_sizes_fmt:
  "fold (texture_sizes env i) js (p\<lparr> fmt := g \<rparr>) = (fold (texture_sizes env i) js p)\<lparr> fmt := g \<rparr>"
  by (induction js arbitrary: p) (simp_all add: texture_sizes_fmt)

lemma init_textures_fmt:
  "init_textures env itp (p\<lparr> fmt := g \<rparr>) =
     map_sum id (\<lambda>p. p\<lparr> fmt := g \<rparr>) (init_textures env itp p)"
  by (cases itp) (simp_all add: init_textures_def Let_def fold_texture_sizes_fmt split_beta)

lemma CreateSampler_color_range:
  "CreateSampler env itp (f\<lparr> color_range := r \<rparr>) tgt expose =
     map_sum id (\<lambda>p. p\<lparr> fmt := f\<lparr> color_range := r \<rparr> \<rparr>) (CreateSampler env itp f tgt expose)"
proof -
  define P0 :: "video_format_t \<Rightarrow> vlc_gl_sampler_priv" where
    "P0 = (\<lambda>f. (calloc_priv f)\<lparr> interop := itp, mtx_transform_defined := False,
              pic_to_tex_matrix := False, mtx_all_defined := False,
              mtx_all_has_changed := False \<rparr>)"
  define finish :: "vlc_gl_sampler_priv \<Rightarrow> error + vlc_gl_sampler_priv" where
    "finish = (\<lambda>p. if (case itp of None \<Rightarrow> False | Some i \<Rightarrow> interop_tex_count i \<noteq> tex_count p)
                then Inl AssertionFailure
                else init_textures env itp
                       (p\<lparr> mtx_coords_map :=
                             memcpy_at (mtx_coords_map p) 0 MATRIX3x2_IDENTITY (3*2) \<rparr>))"
  have cs: "CreateSampler env itp h tgt expose =
     (if \<not> calloc_ok env then Inl VLC_ENOMEM
      else (case opengl_fragment_shader_init env (P0 h) tgt h expose of
              Inl e \<Rightarrow> Inl e | Inr p \<Rightarrow> finish p))" for h
    by (simp add: CreateSampler_def Let_def P0_def finish_def cong: sum.case_cong if_cong)
  have p0: "P0 (f\<lparr> color_range := r \<rparr>) = (P0 f)\<lparr> fmt := f\<lparr> color_range := r \<rparr> \<rparr>"
    by (simp add: P0_def calloc_priv_def)
  have fin: "finish (p\<lparr> fmt := g \<rparr>) = map_sum id (\<lambda>p. p\<lparr> fmt := g \<rparr>) (finish p)" for p g
  proof -
    let ?C = "case itp of None \<Rightarrow> False | Some i \<Rightarrow> interop_tex_count i \<noteq> tex_count p"
    let ?M = "memcpy_at (mtx_coords_map p) 0 MATRIX3x2_IDENTITY (3*2)"
    have comm: "p\<lparr> fmt := g, mtx_coords_map := m \<rparr> = p\<lparr> mtx_coords_map := m, fmt := g \<rparr>"
      for m by simp
    have a: "finish (p\<lparr> fmt := g \<rparr>) =
        (if ?C then Inl AssertionFailure
         else init_textures env itp ((p\<lparr> mtx_coords_map := ?M \<rparr>)\<lparr> fmt := g \<rparr>))"
      by (simp add: finish_def comm cong: option.case_cong)
    have b: "finish p =
        (if ?C then Inl AssertionFailure
         else init_textures env itp (p\<lparr> mtx_coords_map := ?M \<rparr>))"
      by (simp add: finish_def)
    show ?thesis
      unfolding a b init_textures_fmt by simp
  qed
  show ?thesis
    unfolding cs p0 opengl_fragment_shader_init_color_range opengl_fragment_shader_init_fmt
    by (cases "opengl_fragment_shader_init env (P0 f) tgt f expose") (simp_all add: fin)
qed

lemma shader_body_conv_matrix:
  "shader_body env p tgt is_yuv sp sw = Inr p' \<Longrightarrow> conv_matrix p' = conv_matrix p"
  by (auto simp: shader_body_def InitShaderExtensions_def split: if_splits sum.splits)

lemma yuv_init_conv_matrix:
  "yuv_init env p sw0 chroma desc sp = Inr (p', sw) \<Longrightarrow>
     conv_matrix p' = conv_matrix (snd (sampler_yuv_base_init p chroma desc sp))"
  by (auto simp: yuv_init_def split_beta split: if_splits sum.splits)

lemma fold_texture_sizes_conv_matrix:
  "conv_matrix (fold (texture_sizes env i) js p) = conv_matrix p"
  by (induction js arbitrary: p) (simp_all add: texture_sizes_def Let_def)

lemma init_textures_conv_matrix:
  "init_textures env itp p = Inr p' \<Longrightarrow> conv_matrix p' = conv_matrix p"
  by (cases itp)
     (auto simp: init_textures_def Let_def split_beta fold_texture_sizes_conv_matrix
       split: if_splits)

text \<open>The conversion matrix of a sampler constructed for a YUV format.\<close>

lemma CreateSampler_yuv_conv_matrix:
  assumes cs: "CreateSampler env itp f tgt False = Inr s"
    and yuv: "IsYUV env (i_chroma f)" and xyz: "i_chroma f \<noteq> VLC_CODEC_XYZ12"
    and desc: "GetChromaDescription env (i_chroma f) = Some desc"
  shows "conv_matrix s =
     conv_matrix (snd (sampler_yuv_base_init
        ((calloc_priv f)\<lparr> conv_matrix := replicate (4*4) 0 \<rparr>) (i_chroma f) desc (space f)))"
proof -
  define P0 where "P0 = (calloc_priv f)\<lparr> interop := itp, mtx_transform_defined := False,
              pic_to_tex_matrix := False, mtx_all_defined := False,
              mtx_all_has_changed := False \<rparr>"
  define P1 where "P1 = P0\<lparr> tex_target := tgt, expose_planes := False, plane := 0,
     tex_count := plane_count desc,
     mtx_orientation := InitOrientationMatrix (mtx_orientation P0) (orientation f) \<rparr>"
  define sw0 :: "string option list" where "sw0 = replicate PICTURE_PLANE_MAX None"
  from cs obtain p where p: "opengl_fragment_shader_init env P0 tgt f False = Inr p"
    and fin: "init_textures env itp
        (p\<lparr> mtx_coords_map := memcpy_at (mtx_coords_map p) 0 MATRIX3x2_IDENTITY (3*2) \<rparr>) = Inr s"
    by (auto simp: CreateSampler_def Let_def P0_def split: if_splits sum.splits)
  have "opengl_fragment_shader_init env P0 tgt f False =
      (case yuv_init env P1 sw0 (i_chroma f) desc (space f) of
         Inl e \<Rightarrow> Inl e
       | Inr (q, sw) \<Rightarrow> shader_body env q tgt (IsYUV env (i_chroma f)) (space f) sw)"
    using yuv xyz desc by (simp add: opengl_fragment_shader_init_def Let_def P1_def sw0_def)
  with p obtain q sw where q: "yuv_init env P1 sw0 (i_chroma f) desc (space f) = Inr (q, sw)"
    and body: "shader_body env q tgt (IsYUV env (i_chroma f)) (space f) sw = Inr p"
    by (auto split: sum.splits)
  have "conv_matrix s = conv_matrix p"
    using init_textures_conv_matrix [OF fin] by simp
  also have "\<dots> = conv_matrix q" by (rule shader_body_conv_matrix [OF body])
  also have "\<dots> = conv_matrix (snd (sampler_yuv_base_init P1 (i_chroma f) desc (space f)))"
    by (rule yuv_init_conv_matrix [OF q])
  also have "\<dots> = conv_matrix (snd (sampler_yuv_base_init
        ((calloc_priv f)\<lparr> conv_matrix := replicate (4*4) 0 \<rparr>) (i_chroma f) desc (space f)))"
    by (simp add: conv_matrix_sampler_yuv_base_init P1_def P0_def calloc_priv_def)
  finally show ?thesis .
qed

lemma yv12_sampler:
  "CreateSampler yuv_env None (yuv_fmt VLC_CODEC_YV12 COLOR_SPACE_BT601 rng) GL_TEXTURE_2D False =
     Inr (yv12_texture_priv rng)"
  by (simp add: construction_defs yuv_example_defs sampler_yuv_base_init_def
        apply_yuv_range_correction_def swap_uv_def swap_columns_cells opengl_init_swizzle_def
        init_conv_matrix_def matrix_defs
        replicate_5 replicate_6 replicate_16 upt_rec)

text \<open>
  Claim C9 (the conversion matrix of a YUV format is built for limited range, whatever
  the range tag of the format).
  For a sampler constructed for a YUV format other than XYZ12, without plane exposure:
  the conversion matrix is the one \<^verbatim>\<open>init_conv_matrix\<close> builds for
  \<open>COLOR_RANGE_LIMITED\<close>, after the bit-depth correction and the exchange of U and V.
  For every format, replacing the range tag changes neither the outcome of the
  construction nor the conversion matrix. The matrix for \<open>COLOR_RANGE_FULL\<close> would be
  a different one.
\<close>

theorem yuv_matrix_ignores_range_tag:
  assumes "CreateSampler env itp f tgt False = Inr s"
    and "IsYUV env (i_chroma f)" and "i_chroma f \<noteq> VLC_CODEC_XYZ12"
    and "GetChromaDescription env (i_chroma f) = Some desc"
  shows "conv_matrix s =
       (if swap_uv (i_chroma f) then swap_columns_1_2 else id)
         (apply_yuv_range_correction
            (init_conv_matrix (replicate (4*4) 0) (space f) COLOR_RANGE_LIMITED) (i_chroma f) desc)
     \<and> (\<forall>r expose.
          map_sum id conv_matrix (CreateSampler env itp (f\<lparr> color_range := r \<rparr>) tgt expose) =
          map_sum id conv_matrix (CreateSampler env itp f tgt expose))
     \<and> init_conv_matrix (replicate (4*4) 0) (space f) COLOR_RANGE_FULL \<noteq>
       init_conv_matrix (replicate (4*4) 0) (space f) COLOR_RANGE_LIMITED"
proof (intro conjI allI)
  show "conv_matrix s =
       (if swap_uv (i_chroma f) then swap_columns_1_2 else id)
         (apply_yuv_range_correction
            (init_conv_matrix (replicate (4*4) 0) (space f) COLOR_RANGE_LIMITED) (i_chroma f) desc)"
    using CreateSampler_yuv_conv_matrix [OF assms]
    by (simp add: conv_matrix_sampler_yuv_base_init Let_def)
  show "map_sum id conv_matrix (CreateSampler env itp (f\<lparr> color_range := r \<rparr>) tgt expose) =
          map_sum id conv_matrix (CreateSampler env itp f tgt expose)" for r expose
    unfolding CreateSampler_color_range
    by (cases "CreateSampler env itp f tgt expose") simp_all
  show "init_conv_matrix (replicate (4*4) 0) (space f) COLOR_RANGE_FULL \<noteq>
       init_conv_matrix (replicate (4*4) 0) (space f) COLOR_RANGE_LIMITED"
    by (rule init_conv_matrix_full_limited)
qed

text \<open>
  The theorem at the format YV12 with BT.601 and the tag \<open>COLOR_RANGE_FULL\<close>: the
  matrix is the limited-range one, as for the tag \<open>COLOR_RANGE_LIMITED\<close>.
\<close>

theorem yuv_matrix_ignores_range_tag_witness:
  "CreateSampler yuv_env None (yuv_fmt VLC_CODEC_YV12 COLOR_SPACE_BT601 COLOR_RANGE_FULL)
      GL_TEXTURE_2D False = Inr (yv12_texture_priv COLOR_RANGE_FULL)
   \<and> IsYUV yuv_env VLC_CODEC_YV12
   \<and> GetChromaDescription yuv_env VLC_CODEC_YV12 = Some yuv8_desc
   \<and> conv_matrix (yv12_texture_priv COLOR_RANGE_FULL) =
       swap_columns_1_2 (init_conv_matrix (replicate (4*4) 0) COLOR_SPACE_BT601 COLOR_RANGE_LIMITED)
   \<and> map_sum id conv_matrix
        (CreateSampler yuv_env None (yuv_fmt VLC_CODEC_YV12 COLOR_SPACE_BT601 COLOR_RANGE_LIMITED)
           GL_TEXTURE_2D False)
       = map_sum id conv_matrix
        (CreateSampler yuv_env None (yuv_fmt VLC_CODEC_YV12 COLOR_SPACE_BT601 COLOR_RANGE_FULL)
           GL_TEXTURE_2D False)"
proof -
  let ?f = "yuv_fmt VLC_CODEC_YV12 COLOR_SPACE_BT601 COLOR_RANGE_FULL"
  have c: "i_chroma ?f = VLC_CODEC_YV12" and sp: "space ?f = COLOR_SPACE_BT601"
    and rl: "?f\<lparr> color_range := COLOR_RANGE_LIMITED \<rparr>
             = yuv_fmt VLC_CODEC_YV12 COLOR_SPACE_BT601 COLOR_RANGE_LIMITED"
    by (simp_all add: yuv_fmt_def)
  have y: "IsYUV yuv_env (i_chroma ?f)" by (simp add: yuv_env_def)
  have x: "i_chroma ?f \<noteq> VLC_CODEC_XYZ12" by (simp add: yuv_fmt_def)
  have d: "GetChromaDescription yuv_env (i_chroma ?f) = Some yuv8_desc" by (simp add: yuv_env_def)
  note t = yuv_matrix_ignores_range_tag [OF yv12_sampler y x d]
  have m: "conv_matrix (yv12_texture_priv COLOR_RANGE_FULL) =
       swap_columns_1_2 (init_conv_matrix (replicate (4*4) 0) COLOR_SPACE_BT601 COLOR_RANGE_LIMITED)"
    using conjunct1 [OF t]
    by (simp add: c sp swap_uv_def apply_yuv_range_correction_def yuv8_desc_def)
  have i: "map_sum id conv_matrix
        (CreateSampler yuv_env None (yuv_fmt VLC_CODEC_YV12 COLOR_SPACE_BT601 COLOR_RANGE_LIMITED)
           GL_TEXTURE_2D False)
       = map_sum id conv_matrix (CreateSampler yuv_env None ?f GL_TEXTURE_2D False)"
    using conjunct1 [OF conjunct2 [OF t], THEN spec, THEN spec, of COLOR_RANGE_LIMITED False]
    by (simp only: rl)
  show ?thesis
    using y d by (intro conjI yv12_sampler m i) (simp_all only: c)
qed


end
